theory Spec2Isabelle
  imports Complex_Main
begin

text \<open>
  Two sequence-to-sequence models written with a tensor library: \<^verbatim>\<open>01_Seq2Seq/model.py\<close>, an
  encoder and a decoder driven by a greedy loop, and \<^verbatim>\<open>02_Seq2SeqAttention/model.py\<close>, a
  bidirectional encoder, an attention scorer with three scoring methods and a driver with
  teacher forcing. The theory embeds the drivers, the attention scorer and the encoders'
  \<^verbatim>\<open>forward\<close>. The modules a class receives from its constructor (embedding, recurrent
  network, encoder, decoder) and the random source are parameters of the embedding.
\<close>

section \<open>Python exceptions as values\<close>

text \<open>
  Every operation that can raise returns \<open>error + 'a\<close>: \<open>Inl\<close> carries the class of the
  exception, \<open>Inr\<close> the value. \<open>then_do\<close> sequences two statements: the second runs only
  when the first did not raise.
\<close>

datatype error = NotImplementedError | TypeError | AttributeError | IndexError | RuntimeError

definition then_do :: "error + 'a \<Rightarrow> ('a \<Rightarrow> error + 'b) \<Rightarrow> error + 'b" where
  "then_do m f = (case m of Inl e \<Rightarrow> Inl e | Inr x \<Rightarrow> f x)"

section \<open>Tensors\<close>

text \<open>
  A dense tensor is its shape and the element at every index. The operations below check
  the shapes as the tensor library does and never read an index outside the shape.
  Floating-point values are modelled by the reals: rounding, infinities and NaN are
  outside the model. Token ids and indices are integers.
\<close>

record 'a tensor1 =
  shape1 :: nat
  get1 :: "nat \<Rightarrow> 'a"

record 'a tensor2 =
  shape2 :: "nat \<times> nat"
  get2 :: "nat \<Rightarrow> nat \<Rightarrow> 'a"

record 'a tensor3 =
  shape3 :: "nat \<times> nat \<times> nat"
  get3 :: "nat \<Rightarrow> nat \<Rightarrow> nat \<Rightarrow> 'a"

text \<open>\<^verbatim>\<open>torch.zeros(a, b, c)\<close>\<close>

definition zeros :: "nat \<Rightarrow> nat \<Rightarrow> nat \<Rightarrow> real tensor3" where
  "zeros a b c = \<lparr>shape3 = (a, b, c), get3 = (\<lambda>i j k. 0)\<rparr>"

text \<open>\<^verbatim>\<open>x[:, t]\<close> on a two-dimensional tensor: the column \<open>t\<close>, IndexError when there is none.\<close>

definition select_col :: "'a tensor2 \<Rightarrow> nat \<Rightarrow> error + 'a tensor1" where
  "select_col x t =
     (case shape2 x of (n, m) \<Rightarrow>
        if t < m then Inr \<lparr>shape1 = n, get1 = (\<lambda>b. get2 x b t)\<rparr> else Inl IndexError)"

text \<open>
  \<^verbatim>\<open>outputs[:, t] = predication\<close>: the slice has shape (B, V); the value is broadcast to it
  (each of its dimensions is the slice's or 1), RuntimeError otherwise.
\<close>

definition set_time :: "real tensor3 \<Rightarrow> nat \<Rightarrow> real tensor2 \<Rightarrow> error + real tensor3" where
  "set_time out t p =
     (case shape3 out of (B, L, V) \<Rightarrow>
      case shape2 p of (r, c) \<Rightarrow>
        if \<not> t < L then Inl IndexError
        else if (r = B \<or> r = 1) \<and> (c = V \<or> c = 1)
        then Inr (out\<lparr>get3 := (\<lambda>b l v.
                    if l = t then get2 p (if r = 1 then 0 else b) (if c = 1 then 0 else v)
                    else get3 out b l v)\<rparr>)
        else Inl RuntimeError)"

text \<open>
  The index of the first maximal value among \<open>f 0, ..., f (n - 1)\<close>, as \<^verbatim>\<open>max\<close> returns
  it for a row.
\<close>

fun argmax :: "(nat \<Rightarrow> real) \<Rightarrow> nat \<Rightarrow> nat" where
  "argmax f 0 = 0"
| "argmax f (Suc 0) = 0"
| "argmax f (Suc (Suc n)) =
     (let i = argmax f (Suc n) in if f i < f (Suc n) then Suc n else i)"

text \<open>
  \<^verbatim>\<open>values, indices = x.max(dim=1)\<close>: per row the maximum and its index; the reduction
  over an empty dimension raises.
\<close>

definition max_dim1 :: "real tensor2 \<Rightarrow> error + (real tensor1 \<times> int tensor1)" where
  "max_dim1 x =
     (case shape2 x of (r, c) \<Rightarrow>
        if c = 0 then Inl IndexError
        else Inr (\<lparr>shape1 = r, get1 = (\<lambda>b. get2 x b (argmax (get2 x b) c))\<rparr>,
                  \<lparr>shape1 = r, get1 = (\<lambda>b. int (argmax (get2 x b) c))\<rparr>))"

section \<open>The drivers\<close>

text \<open>
  A decoder module as the drivers use it: its attribute \<^verbatim>\<open>out_dim\<close> and its call. The
  encoder and the decoder are the modules handed to the driver's constructor, so they are
  parameters here. The recurrent state (hidden, cell) is only passed on by the drivers.
\<close>

record 'f decoder =
  out_dim :: nat
  call :: 'f

text \<open>
  The variables the loop of \<^verbatim>\<open>forward\<close> updates; \<open>input_tok\<close> is the source's \<^verbatim>\<open>input_\<close>.
\<close>

record ('h, 'c) loop_state =
  outputs :: "real tensor3"
  input_tok :: "int tensor1"
  hidden :: 'h
  cell :: 'c

text \<open>\<^verbatim>\<open>for t in range(...): body\<close>, stopping at the first exception.\<close>

primrec for_loop :: "(nat \<Rightarrow> 's \<Rightarrow> error + 's) \<Rightarrow> nat list \<Rightarrow> 's \<Rightarrow> error + 's" where
  "for_loop body [] s = Inr s"
| "for_loop body (t # ts) s = then_do (body t s) (for_loop body ts)"

subsection \<open>01\_Seq2Seq: \<^verbatim>\<open>Seq2Seq.forward\<close>\<close>

text \<open>One iteration of the loop, lines 79 to 83.\<close>

definition Seq2Seq_step ::
  "(int tensor1 \<Rightarrow> 'h \<Rightarrow> 'c \<Rightarrow> error + (real tensor2 \<times> 'h \<times> 'c)) decoder
     \<Rightarrow> nat \<Rightarrow> ('h, 'c) loop_state \<Rightarrow> error + ('h, 'c) loop_state" where
  "Seq2Seq_step dec t st =
     then_do (call dec (input_tok st) (hidden st) (cell st)) (\<lambda>(predication, hidden', cell').
     then_do (set_time (outputs st) t predication) (\<lambda>outputs'.
     then_do (max_dim1 predication) (\<lambda>(vals, indices).
     Inr \<lparr>outputs = outputs', input_tok = indices, hidden = hidden', cell = cell'\<rparr>)))"

text \<open>
  The state of \<^verbatim>\<open>forward\<close> on entering iteration \<open>n\<close>: the encoder has run, the output
  tensor is allocated, the seed token column is read, and the iterations
  \<open>t = 1, ..., n - 1\<close> are done.
\<close>

definition Seq2Seq_states ::
  "('s \<Rightarrow> 'l \<Rightarrow> error + ('h \<times> 'c))
     \<Rightarrow> (int tensor1 \<Rightarrow> 'h \<Rightarrow> 'c \<Rightarrow> error + (real tensor2 \<times> 'h \<times> 'c)) decoder
     \<Rightarrow> 's \<Rightarrow> 'l \<Rightarrow> int tensor2 \<Rightarrow> nat \<Rightarrow> error + ('h, 'c) loop_state" where
  "Seq2Seq_states enc dec src_input src_length trg_input n =
     then_do (enc src_input src_length) (\<lambda>(hidden0, cell0).
     case shape2 trg_input of (batch_size, max_len) \<Rightarrow>
     then_do (select_col trg_input 0) (\<lambda>input0.
     for_loop (Seq2Seq_step dec) [1..<n]
       \<lparr>outputs = zeros batch_size max_len (out_dim dec), input_tok = input0,
        hidden = hidden0, cell = cell0\<rparr>))"

definition Seq2Seq_forward ::
  "('s \<Rightarrow> 'l \<Rightarrow> error + ('h \<times> 'c))
     \<Rightarrow> (int tensor1 \<Rightarrow> 'h \<Rightarrow> 'c \<Rightarrow> error + (real tensor2 \<times> 'h \<times> 'c)) decoder
     \<Rightarrow> 's \<Rightarrow> 'l \<Rightarrow> int tensor2 \<Rightarrow> error + real tensor3" where
  "Seq2Seq_forward enc dec src_input src_length trg_input =
     then_do (Seq2Seq_states enc dec src_input src_length trg_input (snd (shape2 trg_input)))
       (\<lambda>st. Inr (outputs st))"

subsection \<open>02\_Seq2SeqAttention: \<^verbatim>\<open>Seq2SeqAttention.forward\<close>\<close>

text \<open>
  \<^verbatim>\<open>random.random()\<close> is a generator step \<open>random :: 'g \<Rightarrow> real \<times> 'g\<close>: the draw and the
  generator's next state. The loop carries the generator's state.
\<close>

record ('h, 'c, 'g) attn_loop_state = "('h, 'c) loop_state" +
  gen :: 'g

text \<open>One iteration of the loop, lines 87 to 91.\<close>

definition Seq2SeqAttention_step ::
  "('g \<Rightarrow> real \<times> 'g)
     \<Rightarrow> ('e \<Rightarrow> int tensor1 \<Rightarrow> 'h \<Rightarrow> 'c \<Rightarrow> error + (real tensor2 \<times> 'h \<times> 'c)) decoder
     \<Rightarrow> 'e \<Rightarrow> int tensor2 \<Rightarrow> real
     \<Rightarrow> nat \<Rightarrow> ('h, 'c, 'g) attn_loop_state \<Rightarrow> error + ('h, 'c, 'g) attn_loop_state" where
  "Seq2SeqAttention_step random dec enc_output tar_input teacher_forcing_rate t st =
     then_do (call dec enc_output (input_tok st) (hidden st) (cell st))
       (\<lambda>(predication, hidden', cell').
     then_do (set_time (outputs st) t predication) (\<lambda>outputs'.
     then_do (max_dim1 predication) (\<lambda>(vals, indices).
     case random (gen st) of (draw, gen') \<Rightarrow>
     then_do (if draw < teacher_forcing_rate then select_col tar_input t else Inr indices)
       (\<lambda>input'.
     Inr \<lparr>outputs = outputs', input_tok = input', hidden = hidden', cell = cell',
          gen = gen'\<rparr>))))"

definition Seq2SeqAttention_states ::
  "('g \<Rightarrow> real \<times> 'g) \<Rightarrow> 'g
     \<Rightarrow> ('s \<Rightarrow> 'l \<Rightarrow> error + ('e \<times> 'h \<times> 'c))
     \<Rightarrow> ('e \<Rightarrow> int tensor1 \<Rightarrow> 'h \<Rightarrow> 'c \<Rightarrow> error + (real tensor2 \<times> 'h \<times> 'c)) decoder
     \<Rightarrow> 's \<Rightarrow> 'l \<Rightarrow> int tensor2 \<Rightarrow> real \<Rightarrow> nat
     \<Rightarrow> error + ('h, 'c, 'g) attn_loop_state" where
  "Seq2SeqAttention_states random g0 enc dec src_input src_length tar_input
       teacher_forcing_rate n =
     then_do (enc src_input src_length) (\<lambda>(enc_output, hidden0, cell0).
     case shape2 tar_input of (batch_size, max_len) \<Rightarrow>
     then_do (select_col tar_input 0) (\<lambda>input0.
     for_loop (Seq2SeqAttention_step random dec enc_output tar_input teacher_forcing_rate)
       [1..<n]
       \<lparr>outputs = zeros batch_size max_len (out_dim dec), input_tok = input0,
        hidden = hidden0, cell = cell0, gen = g0\<rparr>))"

definition Seq2SeqAttention_forward ::
  "('g \<Rightarrow> real \<times> 'g) \<Rightarrow> 'g
     \<Rightarrow> ('s \<Rightarrow> 'l \<Rightarrow> error + ('e \<times> 'h \<times> 'c))
     \<Rightarrow> ('e \<Rightarrow> int tensor1 \<Rightarrow> 'h \<Rightarrow> 'c \<Rightarrow> error + (real tensor2 \<times> 'h \<times> 'c)) decoder
     \<Rightarrow> 's \<Rightarrow> 'l \<Rightarrow> int tensor2 \<Rightarrow> real \<Rightarrow> error + real tensor3" where
  "Seq2SeqAttention_forward random g0 enc dec src_input src_length tar_input
       teacher_forcing_rate =
     then_do (Seq2SeqAttention_states random g0 enc dec src_input src_length tar_input
                teacher_forcing_rate (snd (shape2 tar_input)))
       (\<lambda>st. Inr (outputs st))"

section \<open>02\_Seq2SeqAttention: the attention scorer\<close>

subsection \<open>The tensor operations it calls\<close>

text \<open>
  A linear layer \<^verbatim>\<open>nn.Linear(in_features, out_features)\<close>: its weight has shape
  (out\_features, in\_features). The constructor draws the parameter values at random and
  training replaces them, so they are an argument here: a theorem for every \<open>params\<close>
  holds for every value the parameters can take. A dimension that is \<^verbatim>\<open>None\<close> is a
  TypeError.
\<close>

record linear =
  in_features :: nat
  out_features :: nat
  weight :: "nat \<Rightarrow> nat \<Rightarrow> real"
  bias :: "nat \<Rightarrow> real"

definition nn_Linear ::
  "(nat \<Rightarrow> nat \<Rightarrow> real) \<times> (nat \<Rightarrow> real) \<Rightarrow> nat option \<Rightarrow> nat option \<Rightarrow> error + linear" where
  "nn_Linear params n m =
     (case (n, m) of
        (Some i, Some k) \<Rightarrow>
          Inr \<lparr>in_features = i, out_features = k, weight = fst params, bias = snd params\<rparr>
      | _ \<Rightarrow> Inl TypeError)"

text \<open>\<^verbatim>\<open>rnn_dim * k\<close> where \<^verbatim>\<open>rnn_dim\<close> may be \<^verbatim>\<open>None\<close>.\<close>

definition times_int :: "nat option \<Rightarrow> nat \<Rightarrow> error + nat option" where
  "times_int d k = (case d of None \<Rightarrow> Inl TypeError | Some n \<Rightarrow> Inr (Some (n * k)))"

text \<open>
  Calling a linear layer on a three-dimensional tensor: it acts on the last axis, which
  must have \<open>in_features\<close> entries.
\<close>

definition linear_call :: "linear \<Rightarrow> real tensor3 \<Rightarrow> error + real tensor3" where
  "linear_call l x =
     (case shape3 x of (a, b, c) \<Rightarrow>
        if c = in_features l
        then Inr \<lparr>shape3 = (a, b, out_features l),
                  get3 = (\<lambda>i j k. (\<Sum>d<in_features l. get3 x i j d * weight l k d) + bias l k)\<rparr>
        else Inl RuntimeError)"

text \<open>\<^verbatim>\<open>x.bmm(y)\<close>: the batched matrix product of (a, n, m) and (a, m, p).\<close>

definition bmm :: "real tensor3 \<Rightarrow> real tensor3 \<Rightarrow> error + real tensor3" where
  "bmm x y =
     (case shape3 x of (a, n, m) \<Rightarrow>
      case shape3 y of (a', m', p) \<Rightarrow>
        if a = a' \<and> m = m'
        then Inr \<lparr>shape3 = (a, n, p), get3 = (\<lambda>i j k. \<Sum>d<m. get3 x i j d * get3 y i d k)\<rparr>
        else Inl RuntimeError)"

text \<open>\<^verbatim>\<open>x.permute(0, 2, 1)\<close>\<close>

definition permute_021 :: "'a tensor3 \<Rightarrow> 'a tensor3" where
  "permute_021 x =
     (case shape3 x of (a, b, c) \<Rightarrow> \<lparr>shape3 = (a, c, b), get3 = (\<lambda>i j k. get3 x i k j)\<rparr>)"

text \<open>\<^verbatim>\<open>x.expand(-1, -1, n)\<close>: the last axis is repeated \<open>n\<close> times when it has size 1.\<close>

definition expand_last :: "'a tensor3 \<Rightarrow> nat \<Rightarrow> error + 'a tensor3" where
  "expand_last x n =
     (case shape3 x of (a, b, c) \<Rightarrow>
        if c = n then Inr x
        else if c = 1 then Inr \<lparr>shape3 = (a, b, n), get3 = (\<lambda>i j k. get3 x i j 0)\<rparr>
        else Inl RuntimeError)"

text \<open>\<^verbatim>\<open>torch.cat((x, y), dim=1)\<close>\<close>

definition cat_dim1 :: "'a tensor3 \<Rightarrow> 'a tensor3 \<Rightarrow> error + 'a tensor3" where
  "cat_dim1 x y =
     (case shape3 x of (a, b, c) \<Rightarrow>
      case shape3 y of (a', b', c') \<Rightarrow>
        if a = a' \<and> c = c'
        then Inr \<lparr>shape3 = (a, b + b', c),
                  get3 = (\<lambda>i j k. if j < b then get3 x i j k else get3 y i (j - b) k)\<rparr>
        else Inl RuntimeError)"

text \<open>\<^verbatim>\<open>torch.tan(x)\<close>, elementwise.\<close>

definition torch_tan :: "real tensor3 \<Rightarrow> real tensor3" where
  "torch_tan x = x\<lparr>get3 := (\<lambda>i j k. tan (get3 x i j k))\<rparr>"

text \<open>\<^verbatim>\<open>nn.Softmax(dim=1)(x)\<close>: the exponentials normalised along axis 1.\<close>

definition softmax_dim1 :: "real tensor3 \<Rightarrow> real tensor3" where
  "softmax_dim1 x =
     (case shape3 x of (a, b, c) \<Rightarrow>
        x\<lparr>get3 := (\<lambda>i j k. exp (get3 x i j k) / (\<Sum>s<b. exp (get3 x i s k)))\<rparr>)"

subsection \<open>\<^verbatim>\<open>Attention\<close>\<close>

text \<open>
  The attributes \<^verbatim>\<open>self.method\<close>, \<^verbatim>\<open>self.nn\<close> and \<^verbatim>\<open>self.v\<close>; an attribute that was
  never assigned is \<open>None\<close> here, and reading it is an AttributeError.
\<close>

record attention =
  self_method :: string
  self_nn :: "linear option"
  self_v :: "linear option"

text \<open>
  \<^verbatim>\<open>Attention.__init__(self, method, rnn_dim=None)\<close>, lines 108 to 118. \<open>nn_params\<close> and
  \<open>v_params\<close> are the parameter values of the layers it creates.
\<close>

definition Attention_init ::
  "(nat \<Rightarrow> nat \<Rightarrow> real) \<times> (nat \<Rightarrow> real) \<Rightarrow> (nat \<Rightarrow> nat \<Rightarrow> real) \<times> (nat \<Rightarrow> real)
     \<Rightarrow> string \<Rightarrow> nat option \<Rightarrow> error + attention" where
  "Attention_init nn_params v_params method rnn_dim =
     (let self = \<lparr>self_method = method, self_nn = None, self_v = None\<rparr> in
      if self_method self \<notin> set [''dot'', ''general'', ''concat'']
      then Inl NotImplementedError
      else
        then_do (if self_method self = ''general''
                 then then_do (nn_Linear nn_params rnn_dim rnn_dim)
                        (\<lambda>l. Inr (self\<lparr>self_nn := Some l\<rparr>))
                 else Inr self) (\<lambda>self.
        if self_method self = ''concat''
        then then_do (times_int rnn_dim 2) (\<lambda>d2.
             then_do (nn_Linear nn_params d2 rnn_dim) (\<lambda>l.
             then_do (nn_Linear v_params rnn_dim (Some 1)) (\<lambda>l'.
             Inr (self\<lparr>self_nn := Some l, self_v := Some l'\<rparr>))))
        else Inr self))"

definition attribute :: "'a option \<Rightarrow> error + 'a" where
  "attribute a = (case a of None \<Rightarrow> Inl AttributeError | Some x \<Rightarrow> Inr x)"

text \<open>\<^verbatim>\<open>Attention.dot\<close>, \<^verbatim>\<open>Attention.general\<close> and \<^verbatim>\<open>Attention.concat\<close>, lines 120 to 173.\<close>

definition Attention_dot :: "attention \<Rightarrow> real tensor3 \<Rightarrow> real tensor3 \<Rightarrow> error + real tensor3" where
  "Attention_dot self src_inputs tar_input = bmm src_inputs tar_input"

definition Attention_general :: "attention \<Rightarrow> real tensor3 \<Rightarrow> real tensor3 \<Rightarrow> error + real tensor3" where
  "Attention_general self src_inputs tar_input =
     then_do (attribute (self_nn self)) (\<lambda>l.
     then_do (linear_call l src_inputs) (\<lambda>attention_value.
     bmm attention_value tar_input))"

definition Attention_concat :: "attention \<Rightarrow> real tensor3 \<Rightarrow> real tensor3 \<Rightarrow> error + real tensor3" where
  "Attention_concat self src_inputs tar_input =
     (let src_inputs = permute_021 src_inputs in
      then_do (expand_last tar_input (snd (snd (shape3 src_inputs)))) (\<lambda>tar_input.
      then_do (cat_dim1 src_inputs tar_input) (\<lambda>hidden.
      then_do (attribute (self_v self)) (\<lambda>v_layer.
      then_do (attribute (self_nn self)) (\<lambda>nn_layer.
      then_do (linear_call nn_layer (permute_021 hidden)) (\<lambda>h.
      linear_call v_layer (torch_tan h)))))))"

text \<open>
  \<^verbatim>\<open>Attention.forward\<close>, lines 175 to 192. With a method that is none of the three,
  \<^verbatim>\<open>attention_value\<close> stays \<^verbatim>\<open>None\<close> and the softmax raises.
\<close>

definition Attention_forward :: "attention \<Rightarrow> real tensor3 \<Rightarrow> real tensor3 \<Rightarrow> error + real tensor3" where
  "Attention_forward self src_inputs tar_input =
     (let tar_input = permute_021 tar_input in
      then_do (if self_method self = ''dot''
               then then_do (Attention_dot self src_inputs tar_input) (\<lambda>a. Inr (Some a))
               else if self_method self = ''general''
               then then_do (Attention_general self src_inputs tar_input) (\<lambda>a. Inr (Some a))
               else if self_method self = ''concat''
               then then_do (Attention_concat self src_inputs tar_input) (\<lambda>a. Inr (Some a))
               else Inr None) (\<lambda>attention_value.
      case attention_value of
        None \<Rightarrow> Inl AttributeError
      | Some a \<Rightarrow> Inr (softmax_dim1 a)))"

section \<open>The encoders\<close>

text \<open>
  Slices \<^verbatim>\<open>x[:, :, :n]\<close>, \<^verbatim>\<open>x[:, :, n:]\<close>, \<^verbatim>\<open>x[:n]\<close> and \<^verbatim>\<open>x[n:]\<close>: a slice is clamped
  to the axis, it never raises.
\<close>

definition slice_last_to :: "'a tensor3 \<Rightarrow> nat \<Rightarrow> 'a tensor3" where
  "slice_last_to x n = (case shape3 x of (a, b, c) \<Rightarrow> x\<lparr>shape3 := (a, b, min n c)\<rparr>)"

definition slice_last_from :: "'a tensor3 \<Rightarrow> nat \<Rightarrow> 'a tensor3" where
  "slice_last_from x n =
     (case shape3 x of (a, b, c) \<Rightarrow>
        \<lparr>shape3 = (a, b, c - n), get3 = (\<lambda>i j k. get3 x i j (k + n))\<rparr>)"

definition slice_first_to :: "'a tensor3 \<Rightarrow> nat \<Rightarrow> 'a tensor3" where
  "slice_first_to x n = (case shape3 x of (a, b, c) \<Rightarrow> x\<lparr>shape3 := (min n a, b, c)\<rparr>)"

definition slice_first_from :: "'a tensor3 \<Rightarrow> nat \<Rightarrow> 'a tensor3" where
  "slice_first_from x n =
     (case shape3 x of (a, b, c) \<Rightarrow>
        \<lparr>shape3 = (a - n, b, c), get3 = (\<lambda>i j k. get3 x (i + n) j k)\<rparr>)"

text \<open>
  \<^verbatim>\<open>x + y\<close> with broadcasting: two sizes of an axis are compatible when they are equal or
  one of them is 1, and the axis of size 1 is repeated.
\<close>

definition broadcast_dim :: "nat \<Rightarrow> nat \<Rightarrow> nat option" where
  "broadcast_dim m n =
     (if m = n then Some m else if m = 1 then Some n else if n = 1 then Some m else None)"

definition broadcast_index :: "nat \<Rightarrow> nat \<Rightarrow> nat" where
  "broadcast_index d i = (if d = 1 then 0 else i)"

definition tensor_add :: "real tensor3 \<Rightarrow> real tensor3 \<Rightarrow> error + real tensor3" where
  "tensor_add x y =
     (case shape3 x of (a, b, c) \<Rightarrow>
      case shape3 y of (a', b', c') \<Rightarrow>
      case (broadcast_dim a a', broadcast_dim b b', broadcast_dim c c') of
        (Some p, Some q, Some r) \<Rightarrow>
          Inr \<lparr>shape3 = (p, q, r),
               get3 = (\<lambda>i j k.
                 get3 x (broadcast_index a i) (broadcast_index b j) (broadcast_index c k)
                 + get3 y (broadcast_index a' i) (broadcast_index b' j) (broadcast_index c' k))\<rparr>
      | _ \<Rightarrow> Inl RuntimeError)"

text \<open>
  \<^verbatim>\<open>nn.utils.rnn.pack_padded_sequence(input, lengths, batch_first=True)\<close>, a routine of
  the tensor library. The source leaves \<^verbatim>\<open>enforce_sorted\<close> at its default \<^verbatim>\<open>True\<close>, for
  which the library documents that the sequences must be sorted by length in decreasing
  order, and raises a RuntimeError when they are not. The routine's other checks and the
  packed layout are the parameter \<open>pack\<close>.
\<close>

definition pack_padded_sequence ::
  "(real tensor3 \<Rightarrow> int list \<Rightarrow> error + 'p) \<Rightarrow> real tensor3 \<Rightarrow> int list \<Rightarrow> error + 'p" where
  "pack_padded_sequence pack input lengths =
     (if sorted_wrt (\<lambda>a b. b \<le> a) lengths then pack input lengths else Inl RuntimeError)"

text \<open>
  01\_Seq2Seq, \<^verbatim>\<open>EncoderRNN.forward\<close>, lines 19 to 28. The embedding and the recurrent
  network are modules handed to the constructor, \<open>pad_packed_sequence\<close> is the library's
  unpacking routine: all three are parameters.
\<close>

definition EncoderRNN_forward ::
  "('i \<Rightarrow> error + real tensor3) \<Rightarrow> ('p \<Rightarrow> error + ('p \<times> 'h \<times> 'c))
     \<Rightarrow> (real tensor3 \<Rightarrow> int list \<Rightarrow> error + 'p) \<Rightarrow> ('p \<Rightarrow> error + (real tensor3 \<times> int list))
     \<Rightarrow> 'i \<Rightarrow> int list \<Rightarrow> error + ('h \<times> 'c)" where
  "EncoderRNN_forward embedding rnn pack pad_packed_sequence inputs length' =
     then_do (embedding inputs) (\<lambda>embedded.
     then_do (pack_padded_sequence pack embedded length') (\<lambda>packed.
     then_do (rnn packed) (\<lambda>(outputs, hidden', cell').
     then_do (pad_packed_sequence outputs) (\<lambda>(outputs, lens).
     Inr (hidden', cell')))))"

text \<open>
  02\_Seq2SeqAttention, \<^verbatim>\<open>EncoderRNN.forward\<close>, lines 19 to 33. The recurrent network is
  bidirectional: its output has \<open>2 * rnn_dim\<close> channels and its final states have
  \<open>2 * n_layer\<close> rows, ordered layer by layer, forward before backward.
\<close>

definition EncoderRNN_attn_forward ::
  "('i \<Rightarrow> error + real tensor3) \<Rightarrow> (real tensor3 \<Rightarrow> error + real tensor3)
     \<Rightarrow> ('p \<Rightarrow> error + ('p \<times> real tensor3 \<times> real tensor3)) \<Rightarrow> nat
     \<Rightarrow> (real tensor3 \<Rightarrow> int list \<Rightarrow> error + 'p) \<Rightarrow> ('p \<Rightarrow> error + (real tensor3 \<times> int list))
     \<Rightarrow> 'i \<Rightarrow> int list \<Rightarrow> error + (real tensor3 \<times> real tensor3 \<times> real tensor3)" where
  "EncoderRNN_attn_forward embedding batch_norm rnn rnn_dim pack pad_packed_sequence
       inputs length' =
     then_do (embedding inputs) (\<lambda>embedded.
     then_do (batch_norm embedded) (\<lambda>embedded.
     then_do (pack_padded_sequence pack embedded length') (\<lambda>packed.
     then_do (rnn packed) (\<lambda>(outputs, hidden', cell').
     then_do (pad_packed_sequence outputs) (\<lambda>(outputs, outputs_length).
     then_do (tensor_add (slice_last_to outputs rnn_dim) (slice_last_from outputs rnn_dim))
       (\<lambda>outputs.
     then_do (tensor_add (slice_first_to hidden' 1) (slice_first_from hidden' 1)) (\<lambda>hidden'.
     then_do (tensor_add (slice_first_to cell' 1) (slice_first_from cell' 1)) (\<lambda>cell'.
     Inr (outputs, hidden', cell')))))))))"

section \<open>Concrete inputs\<close>

text \<open>A two-dimensional tensor given by its rows.\<close>

definition tensor2_of :: "nat \<Rightarrow> nat \<Rightarrow> 'a list list \<Rightarrow> 'a tensor2" where
  "tensor2_of n m rows = \<lparr>shape2 = (n, m), get2 = (\<lambda>i j. rows ! i ! j)\<rparr>"

text \<open>
  A target batch of two sequences of three tokens; an encoder that returns a zero state; a
  decoder over a vocabulary of three tokens whose logits put the maximum at the successor
  (modulo 3) of the token it was fed; a generator whose draws alternate between 1/4 and
  3/4.
\<close>

definition example_trg :: "int tensor2" where
  "example_trg = tensor2_of 2 3 [[1, 2, 0], [1, 0, 2]]"

definition example_encoder :: "unit \<Rightarrow> unit \<Rightarrow> error + (nat \<times> nat)" where
  "example_encoder src len = Inr (0, 0)"

definition example_decoder ::
  "(int tensor1 \<Rightarrow> nat \<Rightarrow> nat \<Rightarrow> error + (real tensor2 \<times> nat \<times> nat)) decoder" where
  "example_decoder =
     \<lparr>out_dim = 3,
      call = (\<lambda>inp h c. Inr (\<lparr>shape2 = (shape1 inp, 3),
                                get2 = (\<lambda>b v. if int v = (get1 inp b + 1) mod 3 then 1 else 0)\<rparr>,
                              h + 1, c))\<rparr>"

definition example_attn_encoder :: "unit \<Rightarrow> unit \<Rightarrow> error + (unit \<times> nat \<times> nat)" where
  "example_attn_encoder src len = Inr ((), 0, 0)"

definition example_attn_decoder ::
  "(unit \<Rightarrow> int tensor1 \<Rightarrow> nat \<Rightarrow> nat \<Rightarrow> error + (real tensor2 \<times> nat \<times> nat)) decoder" where
  "example_attn_decoder = \<lparr>out_dim = 3, call = (\<lambda>e. call example_decoder)\<rparr>"

definition example_random :: "nat \<Rightarrow> real \<times> nat" where
  "example_random g = (if even g then 1 / 4 else 3 / 4, g + 1)"

text \<open>
  Layer parameters; an embedding over a vocabulary of \<open>vocab\<close> tokens that raises IndexError
  on any other token id; a packing that keeps the padded batch; a bidirectional recurrent
  network of \<open>n_layer\<close> layers whose final states hold the value \<open>10 ^ i\<close> (hidden) and
  \<open>2 ^ i\<close> (cell) in row \<open>i\<close>; an unpacking with two output channels.
\<close>

definition example_params :: "(nat \<Rightarrow> nat \<Rightarrow> real) \<times> (nat \<Rightarrow> real)" where
  "example_params = ((\<lambda>i j. if i = j then 1 else 1 / 2), (\<lambda>i. 0))"

definition example_embedding :: "nat \<Rightarrow> int tensor2 \<Rightarrow> error + real tensor3" where
  "example_embedding vocab inputs =
     (case shape2 inputs of (n, m) \<Rightarrow>
        if list_all (\<lambda>b. list_all (\<lambda>t. 0 \<le> get2 inputs b t \<and> get2 inputs b t < int vocab) [0..<m])
             [0..<n]
        then Inr \<lparr>shape3 = (n, m, 1), get3 = (\<lambda>b t k. real_of_int (get2 inputs b t))\<rparr>
        else Inl IndexError)"

definition example_pack :: "real tensor3 \<Rightarrow> int list \<Rightarrow> error + (real tensor3 \<times> int list)" where
  "example_pack input lengths = Inr (input, lengths)"

definition example_rnn ::
  "nat \<Rightarrow> real tensor3 \<times> int list
     \<Rightarrow> error + ((real tensor3 \<times> int list) \<times> real tensor3 \<times> real tensor3)" where
  "example_rnn n_layer packed =
     (case shape3 (fst packed) of (n, m, d) \<Rightarrow>
        Inr (packed,
             \<lparr>shape3 = (2 * n_layer, n, 1), get3 = (\<lambda>i b k. 10 ^ i)\<rparr>,
             \<lparr>shape3 = (2 * n_layer, n, 1), get3 = (\<lambda>i b k. 2 ^ i)\<rparr>))"

definition example_pad ::
  "real tensor3 \<times> int list \<Rightarrow> error + (real tensor3 \<times> int list)" where
  "example_pad packed =
     (case shape3 (fst packed) of (n, m, d) \<Rightarrow>
        Inr (\<lparr>shape3 = (n, m, 2),
              get3 = (\<lambda>b t k. if k = 0 then get3 (fst packed) b t 0 else 100)\<rparr>, snd packed))"

text \<open>
  Encoder outputs for a batch of two sequences padded to four positions with two channels;
  the second sequence has length two and its padding positions are zero. A decoder state
  for the same batch.
\<close>

definition example_src :: "real tensor3" where
  "example_src =
     \<lparr>shape3 = (2, 4, 2),
      get3 = (\<lambda>b s d. if b = 1 \<and> 2 \<le> s then 0 else real (b + s + d))\<rparr>"

definition example_tar :: "real tensor3" where
  "example_tar = \<lparr>shape3 = (2, 1, 2), get3 = (\<lambda>b s d. real (d + 1))\<rparr>"

section \<open>Facts about sequencing and the loop\<close>

lemma then_do_Inr_iff:
  "then_do m f = Inr y \<longleftrightarrow> (\<exists>x. m = Inr x \<and> f x = Inr y)"
  by (cases m) (simp_all add: then_do_def)

lemma for_loop_append:
  "for_loop body (xs @ ys) s = then_do (for_loop body xs s) (for_loop body ys)"
  by (induction xs arbitrary: s) (simp_all add: then_do_def split: sum.splits)

text \<open>The definitions a concrete run unfolds.\<close>

lemmas example_defs =
  tensor2_of_def example_trg_def example_encoder_def example_decoder_def
  example_attn_encoder_def example_attn_decoder_def example_random_def example_params_def
  example_embedding_def example_pack_def example_rnn_def example_pad_def
  example_src_def example_tar_def

lemmas driver_defs =
  Seq2Seq_forward_def Seq2Seq_states_def Seq2Seq_step_def
  Seq2SeqAttention_forward_def Seq2SeqAttention_states_def Seq2SeqAttention_step_def
  zeros_def select_col_def set_time_def max_dim1_def

lemmas encoder_defs =
  EncoderRNN_forward_def EncoderRNN_attn_forward_def pack_padded_sequence_def
  tensor_add_def slice_last_to_def slice_last_from_def slice_first_to_def slice_first_from_def
  broadcast_dim_def broadcast_index_def

lemmas attention_defs =
  Attention_init_def Attention_forward_def Attention_dot_def Attention_general_def
  Attention_concat_def attribute_def nn_Linear_def times_int_def linear_call_def bmm_def
  permute_021_def expand_last_def cat_dim1_def torch_tan_def

subsection \<open>The bidirectional collapse\<close>

text \<open>
  The output channels: the sum of the forward and the backward half. The final states: the
  first row added to each of the other \<open>2 * n - 1\<close> rows.
\<close>

lemma output_collapse:
  assumes "shape3 x = (B, S, 2 * D)"
  shows "\<exists>r. tensor_add (slice_last_to x D) (slice_last_from x D) = Inr r
           \<and> shape3 r = (B, S, D)
           \<and> (\<forall>b s d. b < B \<and> s < S \<and> d < D \<longrightarrow>
                 get3 r b s d = get3 x b s d + get3 x b s (d + D))"
  using assms
  by (auto simp: tensor_add_def slice_last_to_def slice_last_from_def broadcast_dim_def
      broadcast_index_def)

lemma state_collapse:
  assumes "shape3 h = (2 * n, B, D)" and "0 < n"
  shows "\<exists>r. tensor_add (slice_first_to h 1) (slice_first_from h 1) = Inr r
           \<and> shape3 r = (2 * n - 1, B, D)
           \<and> (\<forall>i b d. i < 2 * n - 1 \<and> b < B \<and> d < D \<longrightarrow>
                 get3 r i b d = get3 h 0 b d + get3 h (i + 1) b d)"
  using assms
  by (auto simp: tensor_add_def slice_first_to_def slice_first_from_def broadcast_dim_def
      broadcast_index_def)

subsection \<open>The loop\<close>

lemma for_loop_invariant:
  assumes "for_loop body ts s = Inr s'" and "P s"
    and "\<And>t s s'. t \<in> set ts \<Longrightarrow> P s \<Longrightarrow> body t s = Inr s' \<Longrightarrow> P s'"
  shows "P s'"
  using assms
proof (induction ts arbitrary: s)
  case Nil
  then show ?case by simp
next
  case (Cons t ts)
  from Cons.prems(1) obtain s1 where s1: "body t s = Inr s1" and rest: "for_loop body ts s1 = Inr s'"
    by (auto simp: then_do_Inr_iff)
  have p1: "P s1" using Cons.prems(3)[of t s s1] Cons.prems(2) s1 by simp
  show ?case
  proof (rule Cons.IH[OF rest p1])
    fix t' a b
    assume "t' \<in> set ts" "P a" "body t' a = Inr b"
    then show "P b" using Cons.prems(3)[of t' a b] by simp
  qed
qed

lemma for_loop_succeeds:
  assumes "P s"
    and "\<And>t s. t \<in> set ts \<Longrightarrow> P s \<Longrightarrow> \<exists>s'. body t s = Inr s' \<and> P s'"
  shows "\<exists>s'. for_loop body ts s = Inr s' \<and> P s'"
  using assms
proof (induction ts arbitrary: s)
  case Nil
  then show ?case by simp
next
  case (Cons t ts)
  from Cons.prems(2)[of t s] Cons.prems(1) obtain s1 where s1: "body t s = Inr s1" "P s1"
    by auto
  from Cons.IH[OF s1(2)] Cons.prems(2) obtain s' where "for_loop body ts s1 = Inr s'" "P s'"
    by auto
  then show ?case using s1 by (auto simp: then_do_def)
qed

lemma for_loop_prefix:
  assumes "for_loop body [1..<n] s = Inr s'" and "k \<le> n"
  shows "\<exists>s''. for_loop body [1..<k] s = Inr s''"
proof (cases "1 \<le> k")
  case True
  then have "[1..<n] = [1..<k] @ [k..<n]"
    using assms(2) by (metis le_Suc_ex upt_add_eq_append)
  then show ?thesis using assms(1) by (auto simp: for_loop_append then_do_Inr_iff)
next
  case False
  then show ?thesis by simp
qed

lemma for_loop_snoc:
  assumes "1 \<le> t"
  shows "for_loop body [1..<Suc t] s = then_do (for_loop body [1..<t] s) (body t)"
proof -
  have "[1..<Suc t] = [1..<t] @ [t]" using assms by simp
  then show ?thesis by (simp add: for_loop_append then_do_def split: sum.splits)
qed

subsection \<open>Writing a time step, reading a column, taking the maximum\<close>

lemma set_time_shape:
  "set_time out t p = Inr out' \<Longrightarrow> shape3 out' = shape3 out"
  by (auto simp: set_time_def split: prod.splits if_splits)

lemma set_time_other:
  "set_time out t p = Inr out' \<Longrightarrow> l \<noteq> t \<Longrightarrow> get3 out' b l v = get3 out b l v"
  by (auto simp: set_time_def split: prod.splits if_splits)

lemma set_time_succeeds:
  "shape3 out = (B, L, V) \<Longrightarrow> shape2 p = (B, V) \<Longrightarrow> t < L \<Longrightarrow>
     \<exists>out'. set_time out t p = Inr out' \<and> shape3 out' = (B, L, V)"
  by (simp add: set_time_def)

lemma select_col_Inr:
  assumes "select_col x t = Inr c"
  shows "t < snd (shape2 x)" and "shape1 c = fst (shape2 x)" and "get1 c b = get2 x b t"
  using assms by (auto simp: select_col_def split: prod.splits if_splits)

lemma argmax_first_max:
  "0 < n \<Longrightarrow> argmax f n < n \<and> (\<forall>j<n. f j \<le> f (argmax f n)) \<and> (\<forall>j<argmax f n. f j < f (argmax f n))"
proof (induction f n rule: argmax.induct)
  case (1 f)
  then show ?case by simp
next
  case (2 f)
  then show ?case by simp
next
  case (3 f n)
  let ?i = "argmax f (Suc n)"
  from 3 have ih: "?i < Suc n" "\<forall>j<Suc n. f j \<le> f ?i" "\<forall>j<?i. f j < f ?i" by simp_all
  show ?case
  proof (cases "f ?i < f (Suc n)")
    case True
    then have eq: "argmax f (Suc (Suc n)) = Suc n" by (simp add: Let_def)
    have "\<forall>j<Suc (Suc n). f j \<le> f (Suc n)"
      using ih(2) True by (metis less_Suc_eq less_eq_real_def order_trans)
    moreover have "\<forall>j<Suc n. f j < f (Suc n)"
      using ih(2) True by (meson le_less_trans)
    ultimately show ?thesis using eq by simp
  next
    case False
    then have eq: "argmax f (Suc (Suc n)) = ?i" by (simp add: Let_def)
    have "\<forall>j<Suc (Suc n). f j \<le> f ?i"
      using ih(2) False by (metis less_Suc_eq not_less)
    then show ?thesis using eq ih by simp
  qed
qed

lemma max_dim1_Inr:
  assumes "max_dim1 p = Inr (vals, idx)"
  shows "shape1 idx = fst (shape2 p)" and "0 < snd (shape2 p)"
    and "get1 idx b = int (argmax (get2 p b) (snd (shape2 p)))"
    and "get1 vals b = get2 p b (argmax (get2 p b) (snd (shape2 p)))"
  using assms by (auto simp: max_dim1_def split: prod.splits if_splits)

lemma max_dim1_is_argmax:
  assumes "max_dim1 p = Inr (vals, idx)" and "v < snd (shape2 p)"
  shows "0 \<le> get1 idx b" and "nat (get1 idx b) < snd (shape2 p)"
    and "get2 p b v \<le> get2 p b (nat (get1 idx b))"
    and "get1 vals b = get2 p b (nat (get1 idx b))"
  using max_dim1_Inr(2)[OF assms(1)] max_dim1_Inr(3,4)[OF assms(1), of b]
    argmax_first_max[of "snd (shape2 p)" "get2 p b"] assms(2)
  by auto

lemma max_dim1_succeeds:
  "shape2 p = (B, V) \<Longrightarrow> 0 < V \<Longrightarrow> \<exists>vals idx. max_dim1 p = Inr (vals, idx) \<and> shape1 idx = B"
  by (simp add: max_dim1_def)

subsection \<open>One iteration of the drivers\<close>

lemma Seq2Seq_step_outputs:
  assumes "Seq2Seq_step dec t st = Inr st'"
  shows "shape3 (outputs st') = shape3 (outputs st)"
    and "l \<noteq> t \<Longrightarrow> get3 (outputs st') b l v = get3 (outputs st) b l v"
  using assms
  by (auto simp: Seq2Seq_step_def then_do_Inr_iff dest: set_time_shape set_time_other)

lemma Seq2SeqAttention_step_outputs:
  assumes "Seq2SeqAttention_step random dec e tar rate t st = Inr st'"
  shows "shape3 (outputs st') = shape3 (outputs st)"
    and "l \<noteq> t \<Longrightarrow> get3 (outputs st') b l v = get3 (outputs st) b l v"
  using assms
  by (auto simp: Seq2SeqAttention_step_def then_do_Inr_iff case_prod_beta
      dest: set_time_shape set_time_other)

lemma Seq2Seq_step_Inr:
  assumes "Seq2Seq_step dec t st = Inr st'"
  shows "\<exists>p vals. call dec (input_tok st) (hidden st) (cell st) = Inr (p, hidden st', cell st')
           \<and> set_time (outputs st) t p = Inr (outputs st')
           \<and> max_dim1 p = Inr (vals, input_tok st')"
  using assms by (auto simp: Seq2Seq_step_def then_do_Inr_iff)

lemma Seq2SeqAttention_step_Inr:
  assumes "Seq2SeqAttention_step random dec e tar rate t st = Inr st'"
  shows "\<exists>p vals idx. call dec e (input_tok st) (hidden st) (cell st) = Inr (p, hidden st', cell st')
           \<and> set_time (outputs st) t p = Inr (outputs st')
           \<and> max_dim1 p = Inr (vals, idx)
           \<and> gen st' = snd (random (gen st))
           \<and> (if fst (random (gen st)) < rate then select_col tar t = Inr (input_tok st')
               else input_tok st' = idx)"
  using assms
  by (auto simp: Seq2SeqAttention_step_def then_do_Inr_iff case_prod_beta split: if_splits)

subsection \<open>The runs of the drivers\<close>

lemma Seq2Seq_states_Inr:
  assumes "Seq2Seq_states enc dec src len trg n = Inr st"
  shows "\<exists>h0 c0 i0. enc src len = Inr (h0, c0) \<and> select_col trg 0 = Inr i0 \<and>
           for_loop (Seq2Seq_step dec) [1..<n]
             \<lparr>outputs = zeros (fst (shape2 trg)) (snd (shape2 trg)) (out_dim dec), input_tok = i0,
              hidden = h0, cell = c0\<rparr> = Inr st"
  using assms by (auto simp: Seq2Seq_states_def then_do_Inr_iff case_prod_beta simp del: One_nat_def)

lemma Seq2SeqAttention_states_Inr:
  assumes "Seq2SeqAttention_states random g0 enc dec src len tar rate n = Inr st"
  shows "\<exists>e h0 c0 i0. enc src len = Inr (e, h0, c0) \<and> select_col tar 0 = Inr i0 \<and>
           for_loop (Seq2SeqAttention_step random dec e tar rate) [1..<n]
             \<lparr>outputs = zeros (fst (shape2 tar)) (snd (shape2 tar)) (out_dim dec), input_tok = i0,
              hidden = h0, cell = c0, gen = g0\<rparr> = Inr st"
  using assms by (auto simp: Seq2SeqAttention_states_def then_do_Inr_iff case_prod_beta simp del: One_nat_def)

lemma Seq2Seq_states_outputs:
  assumes "Seq2Seq_states enc dec src len trg n = Inr st"
  shows "shape3 (outputs st) = (fst (shape2 trg), snd (shape2 trg), out_dim dec)
         \<and> (\<forall>b v. get3 (outputs st) b 0 v = 0) \<and> 0 < snd (shape2 trg)"
proof -
  from Seq2Seq_states_Inr[OF assms] obtain h0 c0 i0 where
    sel: "select_col trg 0 = Inr i0" and
    loop: "for_loop (Seq2Seq_step dec) [1..<n]
             \<lparr>outputs = zeros (fst (shape2 trg)) (snd (shape2 trg)) (out_dim dec), input_tok = i0,
              hidden = h0, cell = c0\<rparr> = Inr st"
    by blast
  let ?P = "\<lambda>s. shape3 (outputs s) = (fst (shape2 trg), snd (shape2 trg), out_dim dec)
         \<and> (\<forall>b v. get3 (outputs s) b 0 v = 0)"
  have "?P st"
  proof (rule for_loop_invariant[OF loop, where P = ?P])
    show "?P \<lparr>outputs = zeros (fst (shape2 trg)) (snd (shape2 trg)) (out_dim dec), input_tok = i0,
              hidden = h0, cell = c0\<rparr>"
      by (simp add: zeros_def)
  next
    fix t s s'
    assume t: "t \<in> set [1..<n]" and p: "?P s" and step: "Seq2Seq_step dec t s = Inr s'"
    have "0 \<noteq> t" using t by simp
    then have "\<And>b v. get3 (outputs s') b 0 v = get3 (outputs s) b 0 v"
      by (rule Seq2Seq_step_outputs(2)[OF step])
    then show "?P s'" using p Seq2Seq_step_outputs(1)[OF step] by simp
  qed
  then show ?thesis using select_col_Inr(1)[OF sel] by simp
qed

lemma Seq2SeqAttention_states_outputs:
  assumes "Seq2SeqAttention_states random g0 enc dec src len tar rate n = Inr st"
  shows "shape3 (outputs st) = (fst (shape2 tar), snd (shape2 tar), out_dim dec)
         \<and> (\<forall>b v. get3 (outputs st) b 0 v = 0) \<and> 0 < snd (shape2 tar)"
proof -
  from Seq2SeqAttention_states_Inr[OF assms] obtain e h0 c0 i0 where
    sel: "select_col tar 0 = Inr i0" and
    loop: "for_loop (Seq2SeqAttention_step random dec e tar rate) [1..<n]
             \<lparr>outputs = zeros (fst (shape2 tar)) (snd (shape2 tar)) (out_dim dec), input_tok = i0,
              hidden = h0, cell = c0, gen = g0\<rparr> = Inr st"
    by blast
  let ?P = "\<lambda>s. shape3 (outputs s) = (fst (shape2 tar), snd (shape2 tar), out_dim dec)
         \<and> (\<forall>b v. get3 (outputs s) b 0 v = 0)"
  have "?P st"
  proof (rule for_loop_invariant[OF loop, where P = ?P])
    show "?P \<lparr>outputs = zeros (fst (shape2 tar)) (snd (shape2 tar)) (out_dim dec), input_tok = i0,
              hidden = h0, cell = c0, gen = g0\<rparr>"
      by (simp add: zeros_def)
  next
    fix t s s'
    assume t: "t \<in> set [1..<n]" and p: "?P s"
      and step: "Seq2SeqAttention_step random dec e tar rate t s = Inr s'"
    have "0 \<noteq> t" using t by simp
    then have "\<And>b v. get3 (outputs s') b 0 v = get3 (outputs s) b 0 v"
      by (rule Seq2SeqAttention_step_outputs(2)[OF step])
    then show "?P s'" using p Seq2SeqAttention_step_outputs(1)[OF step] by simp
  qed
  then show ?thesis using select_col_Inr(1)[OF sel] by simp
qed

text \<open>A run returns when the encoder and every call of the decoder do.\<close>

lemma Seq2Seq_states_succeeds:
  fixes dec :: "(int tensor1 \<Rightarrow> 'h \<Rightarrow> 'c \<Rightarrow> error + (real tensor2 \<times> 'h \<times> 'c)) decoder"
  assumes enc: "enc src len = Inr (h0, c0)"
    and shp: "shape2 trg = (B, L)" and L: "0 < L" and V: "0 < out_dim dec" and n: "n \<le> L"
    and dec: "\<And>inp h c. shape1 inp = B \<Longrightarrow>
                \<exists>p h' c'. call dec inp h c = Inr (p, h', c') \<and> shape2 p = (B, out_dim dec)"
  shows "\<exists>st. Seq2Seq_states enc dec src len trg n = Inr st"
proof -
  let ?P = "\<lambda>s. shape1 (input_tok s) = B \<and> shape3 (outputs s) = (B, L, out_dim dec)"
  obtain i0 where i0: "select_col trg 0 = Inr i0" "shape1 i0 = B"
    using shp L by (simp add: select_col_def)
  let ?s0 = "\<lparr>outputs = zeros B L (out_dim dec), input_tok = i0, hidden = h0, cell = c0\<rparr>"
  have "\<exists>st. for_loop (Seq2Seq_step dec) [1..<n] ?s0 = Inr st \<and> ?P st"
  proof (rule for_loop_succeeds[where P = ?P])
    show "?P ?s0" using i0 by (simp add: zeros_def)
  next
    fix t and s :: "('h, 'c) loop_state"
    assume t: "t \<in> set [1..<n]" and p: "?P s"
    from dec[of "input_tok s" "hidden s" "cell s"] p obtain pr h' c' where
      d: "call dec (input_tok s) (hidden s) (cell s) = Inr (pr, h', c')" "shape2 pr = (B, out_dim dec)"
      by blast
    have "t < L" using t n by simp
    with set_time_succeeds[of "outputs s" B L "out_dim dec" pr t] p d(2) obtain out' where
      o: "set_time (outputs s) t pr = Inr out'" "shape3 out' = (B, L, out_dim dec)"
      by blast
    from max_dim1_succeeds[OF d(2) V] obtain vals idx where
      m: "max_dim1 pr = Inr (vals, idx)" "shape1 idx = B"
      by blast
    show "\<exists>s'. Seq2Seq_step dec t s = Inr s' \<and> ?P s'"
      using d o m by (simp add: Seq2Seq_step_def then_do_def)
  qed
  then show ?thesis
    using enc shp i0 by (auto simp: Seq2Seq_states_def then_do_def simp del: One_nat_def)
qed

lemma Seq2SeqAttention_states_succeeds:
  fixes dec :: "('e \<Rightarrow> int tensor1 \<Rightarrow> 'h \<Rightarrow> 'c \<Rightarrow> error + (real tensor2 \<times> 'h \<times> 'c)) decoder"
    and g0 :: 'g
  assumes enc: "enc src len = Inr (e, h0, c0)"
    and shp: "shape2 tar = (B, L)" and L: "0 < L" and V: "0 < out_dim dec" and n: "n \<le> L"
    and dec: "\<And>inp h c. shape1 inp = B \<Longrightarrow>
                \<exists>p h' c'. call dec e inp h c = Inr (p, h', c') \<and> shape2 p = (B, out_dim dec)"
  shows "\<exists>st. Seq2SeqAttention_states random g0 enc dec src len tar rate n = Inr st"
proof -
  let ?P = "\<lambda>s. shape1 (input_tok s) = B \<and> shape3 (outputs s) = (B, L, out_dim dec)"
  obtain i0 where i0: "select_col tar 0 = Inr i0" "shape1 i0 = B"
    using shp L by (simp add: select_col_def)
  let ?s0 = "\<lparr>outputs = zeros B L (out_dim dec), input_tok = i0, hidden = h0, cell = c0,
              gen = g0\<rparr>"
  have "\<exists>st. for_loop (Seq2SeqAttention_step random dec e tar rate) [1..<n] ?s0 = Inr st \<and> ?P st"
  proof (rule for_loop_succeeds[where P = ?P])
    show "?P ?s0" using i0 by (simp add: zeros_def)
  next
    fix t and s :: "('h, 'c, 'g) attn_loop_state"
    assume t: "t \<in> set [1..<n]" and p: "?P s"
    from dec[of "input_tok s" "hidden s" "cell s"] p obtain pr h' c' where
      d: "call dec e (input_tok s) (hidden s) (cell s) = Inr (pr, h', c')"
         "shape2 pr = (B, out_dim dec)"
      by blast
    have tL: "t < L" using t n by simp
    with set_time_succeeds[of "outputs s" B L "out_dim dec" pr t] p d(2) obtain out' where
      o: "set_time (outputs s) t pr = Inr out'" "shape3 out' = (B, L, out_dim dec)"
      by blast
    from max_dim1_succeeds[OF d(2) V] obtain vals idx where
      m: "max_dim1 pr = Inr (vals, idx)" "shape1 idx = B"
      by blast
    obtain col where col: "select_col tar t = Inr col" "shape1 col = B"
      using shp tL by (simp add: select_col_def)
    show "\<exists>s'. Seq2SeqAttention_step random dec e tar rate t s = Inr s' \<and> ?P s'"
      using d o m col
      by (simp add: Seq2SeqAttention_step_def then_do_def case_prod_beta)
  qed
  then show ?thesis
    using enc shp i0
    by (auto simp: Seq2SeqAttention_states_def then_do_def simp del: One_nat_def)
qed

text \<open>The state entering iteration \<open>t + 1\<close> is one iteration after the state entering \<open>t\<close>.\<close>

lemma Seq2Seq_states_Suc:
  "1 \<le> t \<Longrightarrow> Seq2Seq_states enc dec src len trg (Suc t)
     = then_do (Seq2Seq_states enc dec src len trg t) (Seq2Seq_step dec t)"
  by (simp add: Seq2Seq_states_def for_loop_snoc then_do_def case_prod_beta
      split: sum.splits del: One_nat_def upt_Suc)

lemma Seq2SeqAttention_states_Suc:
  "1 \<le> t \<Longrightarrow> Seq2SeqAttention_states random g0 enc dec src len tar rate (Suc t)
     = then_do (Seq2SeqAttention_states random g0 enc dec src len tar rate t)
         (Seq2SeqAttention_step random dec (fst (projr (enc src len))) tar rate t)"
  by (simp add: Seq2SeqAttention_states_def for_loop_snoc then_do_def case_prod_beta
      split: sum.splits del: One_nat_def upt_Suc)

lemma Seq2Seq_states_prefix:
  assumes "Seq2Seq_states enc dec src len trg n = Inr st" and "k \<le> n"
  shows "\<exists>st'. Seq2Seq_states enc dec src len trg k = Inr st'"
proof -
  from Seq2Seq_states_Inr[OF assms(1)] obtain h0 c0 i0 where
    e: "enc src len = Inr (h0, c0)" and sel: "select_col trg 0 = Inr i0" and
    loop: "for_loop (Seq2Seq_step dec) [1..<n]
             \<lparr>outputs = zeros (fst (shape2 trg)) (snd (shape2 trg)) (out_dim dec), input_tok = i0,
              hidden = h0, cell = c0\<rparr> = Inr st"
    by blast
  from for_loop_prefix[OF loop assms(2)] show ?thesis
    using e sel by (auto simp: Seq2Seq_states_def then_do_def case_prod_beta simp del: One_nat_def)
qed

lemma Seq2SeqAttention_states_prefix:
  assumes "Seq2SeqAttention_states random g0 enc dec src len tar rate n = Inr st" and "k \<le> n"
  shows "\<exists>st'. Seq2SeqAttention_states random g0 enc dec src len tar rate k = Inr st'"
proof -
  from Seq2SeqAttention_states_Inr[OF assms(1)] obtain e h0 c0 i0 where
    e: "enc src len = Inr (e, h0, c0)" and sel: "select_col tar 0 = Inr i0" and
    loop: "for_loop (Seq2SeqAttention_step random dec e tar rate) [1..<n]
             \<lparr>outputs = zeros (fst (shape2 tar)) (snd (shape2 tar)) (out_dim dec), input_tok = i0,
              hidden = h0, cell = c0, gen = g0\<rparr> = Inr st"
    by blast
  from for_loop_prefix[OF loop assms(2)] show ?thesis
    using e sel
    by (auto simp: Seq2SeqAttention_states_def then_do_def case_prod_beta simp del: One_nat_def)
qed

text \<open>The iteration at time \<open>t\<close> of a run that returned.\<close>

lemma Seq2Seq_forward_step:
  assumes "Seq2Seq_forward enc dec src len trg = Inr out" and "1 \<le> t" and "t < snd (shape2 trg)"
  shows "\<exists>st st'. Seq2Seq_states enc dec src len trg t = Inr st
           \<and> Seq2Seq_states enc dec src len trg (Suc t) = Inr st'
           \<and> Seq2Seq_step dec t st = Inr st'"
proof -
  from assms(1) obtain stL where "Seq2Seq_states enc dec src len trg (snd (shape2 trg)) = Inr stL"
    by (auto simp: Seq2Seq_forward_def then_do_Inr_iff)
  from Seq2Seq_states_prefix[OF this, of "Suc t"] assms(3) obtain st' where
    s': "Seq2Seq_states enc dec src len trg (Suc t) = Inr st'" by auto
  then show ?thesis using Seq2Seq_states_Suc[OF assms(2), of enc dec src len trg]
    by (auto simp: then_do_Inr_iff)
qed

lemma Seq2SeqAttention_forward_step:
  assumes "Seq2SeqAttention_forward random g0 enc dec src len tar rate = Inr out"
    and "1 \<le> t" and "t < snd (shape2 tar)"
  shows "\<exists>st st' e h0 c0. Seq2SeqAttention_states random g0 enc dec src len tar rate t = Inr st
           \<and> Seq2SeqAttention_states random g0 enc dec src len tar rate (Suc t) = Inr st'
           \<and> enc src len = Inr (e, h0, c0)
           \<and> Seq2SeqAttention_step random dec e tar rate t st = Inr st'"
proof -
  from assms(1) obtain stL where
    "Seq2SeqAttention_states random g0 enc dec src len tar rate (snd (shape2 tar)) = Inr stL"
    by (auto simp: Seq2SeqAttention_forward_def then_do_Inr_iff)
  from Seq2SeqAttention_states_prefix[OF this, of "Suc t"] assms(3) obtain st' where
    s': "Seq2SeqAttention_states random g0 enc dec src len tar rate (Suc t) = Inr st'" by auto
  from Seq2SeqAttention_states_Inr[OF s'] obtain e h0 c0 where
    e: "enc src len = Inr (e, h0, c0)" by blast
  show ?thesis
    using s' e Seq2SeqAttention_states_Suc[OF assms(2), of random g0 enc dec src len tar rate]
    by (auto simp: then_do_Inr_iff)
qed

text \<open>On entering iteration \<open>t\<close> the generator has been advanced \<open>t - 1\<close> times.\<close>

lemma Seq2SeqAttention_states_gen:
  "Seq2SeqAttention_states random g0 enc dec src len tar rate t = Inr st
     \<Longrightarrow> gen st = ((\<lambda>g. snd (random g)) ^^ (t - 1)) g0"
proof (induction t arbitrary: st)
  case 0
  then show ?case
    by (auto simp: Seq2SeqAttention_states_def then_do_Inr_iff case_prod_beta)
next
  case (Suc t)
  show ?case
  proof (cases "1 \<le> t")
    case True
    from Suc.prems Seq2SeqAttention_states_Suc[OF True, of random g0 enc dec src len tar rate]
    obtain s where s: "Seq2SeqAttention_states random g0 enc dec src len tar rate t = Inr s"
      and step: "Seq2SeqAttention_step random dec (fst (projr (enc src len))) tar rate t s = Inr st"
      by (auto simp: then_do_Inr_iff)
    from Seq2SeqAttention_step_Inr[OF step] have "gen st = snd (random (gen s))" by blast
    moreover from True obtain k where "t = Suc k" by (cases t) auto
    ultimately show ?thesis using Suc.IH[OF s] by simp
  next
    case False
    then have "t = 0" by simp
    with Suc.prems show ?thesis
      by (auto simp: Seq2SeqAttention_states_def then_do_Inr_iff case_prod_beta)
  qed
qed

subsection \<open>The attention scorer\<close>

lemma softmax_dim1_shape: "shape3 (softmax_dim1 x) = shape3 x"
  by (simp add: softmax_dim1_def case_prod_beta)

lemma softmax_dim1_get:
  "get3 (softmax_dim1 x) i j k
     = exp (get3 x i j k) / (\<Sum>s<fst (snd (shape3 x)). exp (get3 x i s k))"
  by (simp add: softmax_dim1_def case_prod_beta)

lemma softmax_dim1_nonneg: "0 \<le> get3 (softmax_dim1 x) i j k"
  by (simp add: softmax_dim1_get sum_nonneg)

lemma softmax_dim1_sum:
  assumes "0 < fst (snd (shape3 x))"
  shows "(\<Sum>j<fst (snd (shape3 x)). get3 (softmax_dim1 x) i j k) = 1"
proof -
  let ?Z = "\<Sum>s<fst (snd (shape3 x)). exp (get3 x i s k)"
  have "0 < ?Z"
    using assms by (intro sum_pos) auto
  then show ?thesis
    by (simp add: softmax_dim1_get sum_divide_distrib[symmetric])
qed

lemma Attention_init_Inr:
  assumes "Attention_init nn_params v_params method rnn_dim = Inr self"
  shows "method \<in> {''dot'', ''general'', ''concat''}" and "self_method self = method"
    and "method = ''general'' \<Longrightarrow>
           \<exists>d l. rnn_dim = Some d \<and> self_nn self = Some l \<and> in_features l = d \<and> out_features l = d"
    and "method = ''concat'' \<Longrightarrow>
           \<exists>d l l'. rnn_dim = Some d \<and> self_nn self = Some l \<and> in_features l = d * 2 \<and> out_features l = d
              \<and> self_v self = Some l' \<and> in_features l' = d \<and> out_features l' = 1"
  using assms
  by (auto simp: Attention_init_def then_do_Inr_iff nn_Linear_def times_int_def Let_def
      split: if_splits option.splits)

lemma dot_shape:
  assumes "shape3 src = (B, S, D)" and "shape3 tar = (B, 1, D)"
  shows "\<exists>a. Attention_dot self src (permute_021 tar) = Inr a \<and> shape3 a = (B, S, 1)"
  using assms by (simp add: Attention_dot_def bmm_def permute_021_def)

lemma general_shape:
  assumes "shape3 src = (B, S, D)" and "shape3 tar = (B, 1, D)"
    and "self_nn self = Some l" and "in_features l = D" and "out_features l = D"
  shows "\<exists>a. Attention_general self src (permute_021 tar) = Inr a \<and> shape3 a = (B, S, 1)"
  using assms
  by (simp add: Attention_general_def attribute_def linear_call_def bmm_def permute_021_def then_do_def)

lemma Attention_concat_shape:
  assumes "shape3 src = (B, S, D)" and "shape3 tar = (B, 1, D)"
    and "self_nn self = Some l" and "in_features l = D * 2" and "out_features l = D"
    and "self_v self = Some l'" and "in_features l' = D" and "out_features l' = 1"
  shows "\<exists>a. Attention_concat self src (permute_021 tar) = Inr a \<and> shape3 a = (B, S, 1)"
  using assms
  by (simp add: Attention_concat_def attribute_def linear_call_def cat_dim1_def expand_last_def
      torch_tan_def permute_021_def then_do_def Let_def)

section \<open>The claims\<close>

subsection \<open>The attention scorer\<close>

text \<open>
  C1. For each of the methods dot, general and concat, for every value of the layers'
  parameters, every encoder-outputs tensor of shape (batch\_size, seq\_len, dim) with at
  least one position and every decoder state of shape (batch\_size, 1, dim),
  \<^verbatim>\<open>Attention.forward\<close> returns a tensor of shape (batch\_size, seq\_len, 1) of non-negative
  weights which, for every batch element, sum to 1 over all seq\_len positions. The scorer
  is not given the sequences' lengths: the sum runs over every position, padding included.
  Values are reals here, so the sum is exactly 1.
\<close>

theorem attention_weights_sum_to_one:
  assumes "Attention_init nn_params v_params method rnn_dim = Inr self"
    and "method = ''dot'' \<or> rnn_dim = Some D"
    and "shape3 src_inputs = (B, S, D)" and "shape3 tar_input = (B, 1, D)" and "0 < S"
  shows "\<exists>w. Attention_forward self src_inputs tar_input = Inr w
           \<and> shape3 w = (B, S, 1)
           \<and> (\<forall>b s. b < B \<and> s < S \<longrightarrow> 0 \<le> get3 w b s 0)
           \<and> (\<forall>b. b < B \<longrightarrow> (\<Sum>s<S. get3 w b s 0) = 1)"
proof -
  note init = Attention_init_Inr[OF assms(1)]
  have "\<exists>a. Attention_forward self src_inputs tar_input = Inr (softmax_dim1 a)
            \<and> shape3 a = (B, S, 1)"
  proof -
    consider "method = ''dot''" | "method = ''general''" | "method = ''concat''"
      using init(1) by auto
    then show ?thesis
    proof cases
      case 1
      from dot_shape[OF assms(3,4), of self] obtain a where
        "Attention_dot self src_inputs (permute_021 tar_input) = Inr a" "shape3 a = (B, S, 1)"
        by blast
      then show ?thesis using 1 init(2)
        by (auto simp: Attention_forward_def then_do_def Let_def)
    next
      case 2
      with assms(2) have d: "rnn_dim = Some D" by simp
      from init(3)[OF 2] d obtain l where
        l: "self_nn self = Some l" "in_features l = D" "out_features l = D" by auto
      from general_shape[OF assms(3,4) l] obtain a where
        "Attention_general self src_inputs (permute_021 tar_input) = Inr a"
        "shape3 a = (B, S, 1)"
        by blast
      then show ?thesis using 2 init(2)
        by (auto simp: Attention_forward_def then_do_def Let_def)
    next
      case 3
      with assms(2) have d: "rnn_dim = Some D" by simp
      from init(4)[OF 3] d obtain l l' where
        l: "self_nn self = Some l" "in_features l = D * 2" "out_features l = D"
           "self_v self = Some l'" "in_features l' = D" "out_features l' = 1" by auto
      from Attention_concat_shape[OF assms(3,4) l] obtain a where
        "Attention_concat self src_inputs (permute_021 tar_input) = Inr a"
        "shape3 a = (B, S, 1)"
        by blast
      then show ?thesis using 3 init(2)
        by (auto simp: Attention_forward_def then_do_def Let_def)
    qed
  qed
  then obtain a where fwd: "Attention_forward self src_inputs tar_input = Inr (softmax_dim1 a)"
    and a: "shape3 a = (B, S, 1)" by blast
  have S: "fst (snd (shape3 a)) = S" using a by simp
  have "(\<Sum>s<S. get3 (softmax_dim1 a) b s 0) = 1" for b
    using softmax_dim1_sum[of a b 0] assms(5) S by simp
  then show ?thesis
    using fwd a by (simp add: softmax_dim1_shape softmax_dim1_nonneg)
qed

text \<open>
  The three scorers on the example batch: the weights of the second sequence,
  whose last two positions are padding, sum to 1 over all four positions.
\<close>

theorem attention_weights_sum_to_one_witness:
  "(\<exists>self w. Attention_init example_params example_params ''dot'' None = Inr self
        \<and> shape3 example_src = (2, 4, 2) \<and> shape3 example_tar = (2, 1, 2)
        \<and> Attention_forward self example_src example_tar = Inr w
        \<and> shape3 w = (2, 4, 1) \<and> 0 \<le> get3 w 1 3 0 \<and> (\<Sum>s<4. get3 w 1 s 0) = 1)
   \<and> (\<exists>self w. Attention_init example_params example_params ''general'' (Some 2) = Inr self
        \<and> Attention_forward self example_src example_tar = Inr w
        \<and> shape3 w = (2, 4, 1) \<and> 0 \<le> get3 w 1 3 0 \<and> (\<Sum>s<4. get3 w 1 s 0) = 1)
   \<and> (\<exists>self w. Attention_init example_params example_params ''concat'' (Some 2) = Inr self
        \<and> Attention_forward self example_src example_tar = Inr w
        \<and> shape3 w = (2, 4, 1) \<and> 0 \<le> get3 w 1 3 0 \<and> (\<Sum>s<4. get3 w 1 s 0) = 1)"
proof -
  have src: "shape3 example_src = (2, 4, 2)" and tar: "shape3 example_tar = (2, 1, 2)"
    by (simp_all add: example_defs)
  obtain s1 where s1: "Attention_init example_params example_params ''dot'' None = Inr s1"
    by (simp add: attention_defs then_do_def)
  obtain s2 where s2: "Attention_init example_params example_params ''concat'' (Some 2) = Inr s2"
    by (simp add: attention_defs then_do_def)
  obtain s3 where s3: "Attention_init example_params example_params ''general'' (Some 2) = Inr s3"
    by (simp add: attention_defs then_do_def)
  from attention_weights_sum_to_one[OF s3 _ src tar] obtain w3 where
    "Attention_forward s3 example_src example_tar = Inr w3" "shape3 w3 = (2, 4, 1)"
    "0 \<le> get3 w3 1 3 0" "(\<Sum>s<4. get3 w3 1 s 0) = 1"
    by auto
  moreover from attention_weights_sum_to_one[OF s1 _ src tar] obtain w1 where
    "Attention_forward s1 example_src example_tar = Inr w1" "shape3 w1 = (2, 4, 1)"
    "0 \<le> get3 w1 1 3 0" "(\<Sum>s<4. get3 w1 1 s 0) = 1"
    by auto
  moreover from attention_weights_sum_to_one[OF s2 _ src tar] obtain w2 where
    "Attention_forward s2 example_src example_tar = Inr w2" "shape3 w2 = (2, 4, 1)"
    "0 \<le> get3 w2 1 3 0" "(\<Sum>s<4. get3 w2 1 s 0) = 1"
    by auto
  ultimately show ?thesis using s1 s2 s3 src tar by blast
qed




subsection \<open>The encoders\<close>

text \<open>
  C2, as amended. Neither encoder checks the length vector itself. When the lengths are
  not sorted in decreasing order and the embedding (and, in the attention variant, the
  normalisation) of the inputs has succeeded, \<^verbatim>\<open>forward\<close> fails with the RuntimeError the
  packing routine raises; the recurrent network is not called, since the result is the same
  for every \<open>rnn\<close>. An error of the embedding comes first, whatever the lengths are.
\<close>

theorem unsorted_lengths_fail_in_packing:
  assumes "\<not> sorted_wrt (\<lambda>a b. b \<le> a) length'"
  shows "(\<forall>embedded. embedding inputs = Inr embedded \<longrightarrow>
            EncoderRNN_forward embedding rnn pack pad_packed_sequence inputs length'
              = Inl RuntimeError)
       \<and> (\<forall>e. embedding inputs = Inl e \<longrightarrow>
            EncoderRNN_forward embedding rnn pack pad_packed_sequence inputs length' = Inl e)
       \<and> (\<forall>embedded normed.
             embedding' inputs' = Inr embedded \<and> batch_norm embedded = Inr normed \<longrightarrow>
            EncoderRNN_attn_forward embedding' batch_norm rnn' rnn_dim pack'
              pad_packed_sequence' inputs' length' = Inl RuntimeError)
       \<and> (\<forall>e. embedding' inputs' = Inl e \<longrightarrow>
            EncoderRNN_attn_forward embedding' batch_norm rnn' rnn_dim pack'
              pad_packed_sequence' inputs' length' = Inl e)"
  using assms
  by (simp add: EncoderRNN_forward_def EncoderRNN_attn_forward_def pack_padded_sequence_def
      then_do_def)

theorem unsorted_lengths_fail_in_packing_witness:
  "\<not> sorted_wrt (\<lambda>a b. b \<le> a) [1, 2 :: int]
   \<and> (\<exists>embedded. example_embedding 3 (tensor2_of 2 2 [[1, 2], [2, 0]]) = Inr embedded)
   \<and> EncoderRNN_forward (example_embedding 3) (example_rnn 1) example_pack example_pad
        (tensor2_of 2 2 [[1, 2], [2, 0]]) [1, 2] = Inl RuntimeError
   \<and> EncoderRNN_attn_forward (example_embedding 3) Inr (example_rnn 1) 1 example_pack
        example_pad (tensor2_of 2 2 [[1, 2], [2, 0]]) [1, 2] = Inl RuntimeError"
proof -
  have u: "\<not> sorted_wrt (\<lambda>a b. b \<le> a) [1, 2 :: int]" by simp
  obtain e where e: "example_embedding 3 (tensor2_of 2 2 [[1, 2], [2, 0]]) = Inr e"
    by (simp add: example_defs upt_rec)
  show ?thesis
    using u e
      unsorted_lengths_fail_in_packing[OF u, where embedding = "example_embedding 3"
        and inputs = "tensor2_of 2 2 [[1, 2], [2, 0]]" and embedding' = "example_embedding 3"
        and inputs' = "tensor2_of 2 2 [[1, 2], [2, 0]]" and batch_norm = Inr
        and rnn = "example_rnn 1" and rnn' = "example_rnn 1" and pack = example_pack
        and pack' = example_pack and pad_packed_sequence = example_pad
        and pad_packed_sequence' = example_pad and rnn_dim = 1]
    by auto
qed

text \<open>
  The claim as stated fails: there is no check at the entry of \<^verbatim>\<open>forward\<close>. With the
  unsorted lengths [1, 2] and a batch that holds the token 7, outside the vocabulary of
  three tokens, both encoders raise the embedding's IndexError, the same error as with the
  sorted lengths [2, 1]: the lengths are not looked at before the embedding has run, and
  the error for them, when it comes, is the packing routine's.
\<close>

theorem unsorted_lengths_not_checked_at_entry:
  "\<not> sorted_wrt (\<lambda>a b. b \<le> a) [1, 2 :: int]
   \<and> EncoderRNN_forward (example_embedding 3) (example_rnn 1) example_pack example_pad
        (tensor2_of 2 2 [[1, 7], [2, 0]]) [1, 2] = Inl IndexError
   \<and> EncoderRNN_attn_forward (example_embedding 3) Inr (example_rnn 1) 1 example_pack
        example_pad (tensor2_of 2 2 [[1, 7], [2, 0]]) [1, 2] = Inl IndexError
   \<and> EncoderRNN_forward (example_embedding 3) (example_rnn 1) example_pack example_pad
        (tensor2_of 2 2 [[1, 7], [2, 0]]) [2, 1] = Inl IndexError
   \<and> EncoderRNN_attn_forward (example_embedding 3) Inr (example_rnn 1) 1 example_pack
        example_pad (tensor2_of 2 2 [[1, 7], [2, 0]]) [2, 1] = Inl IndexError"
  by (simp add: encoder_defs example_defs then_do_def upt_rec)

text \<open>
  C4, at a two-layer encoder. The recurrent network returns four state rows (layer 0
  forward, layer 0 backward, layer 1 forward, layer 1 backward), here holding 1, 10, 100,
  1000 (hidden) and 1, 2, 4, 8 (cell). \<^verbatim>\<open>hidden[:1] + hidden[1:]\<close> adds the first row to each
  of the other three: the states returned have three rows, 11, 101, 1001 and 3, 5, 9. The
  sums per layer would be two rows, 11, 1100 and 3, 12. The output channels are summed as
  the claim says.
\<close>

theorem two_layer_state_collapse:
  "case EncoderRNN_attn_forward (example_embedding 3) Inr (example_rnn 2) 1 example_pack
          example_pad (tensor2_of 1 2 [[1, 2]]) [2] of
     Inl e \<Rightarrow> False
   | Inr (outs, hid, cel) \<Rightarrow>
       shape3 hid = (3, 1, 1)
     \<and> get3 hid 0 0 0 = 11 \<and> get3 hid 1 0 0 = 101 \<and> get3 hid 2 0 0 = 1001
     \<and> shape3 cel = (3, 1, 1)
     \<and> get3 cel 0 0 0 = 3 \<and> get3 cel 1 0 0 = 5 \<and> get3 cel 2 0 0 = 9
     \<and> shape3 outs = (1, 2, 1) \<and> get3 outs 0 0 0 = 101 \<and> get3 outs 0 1 0 = 102"
  by (simp add: encoder_defs example_defs then_do_def upt_rec)

subsection \<open>The drivers\<close>

text \<open>
  C5. For both architectures, whatever the encoder, the decoder, the inputs, the
  teacher-forcing rate and the random source are: when \<^verbatim>\<open>forward\<close> returns, the output tensor
  has a time index 0 and holds 0 there for every batch element and every vocabulary entry.
\<close>

theorem output_time_index_zero:
  "(Seq2Seq_forward enc dec src_input src_length trg_input = Inr out \<longrightarrow>
      0 < fst (snd (shape3 out)) \<and>
      (\<forall>b k. b < fst (shape3 out) \<longrightarrow> k < snd (snd (shape3 out)) \<longrightarrow> get3 out b 0 k = 0))
   \<and> (Seq2SeqAttention_forward random g0 enc' dec' src_input' src_length' tar_input rate
         = Inr out' \<longrightarrow>
      0 < fst (snd (shape3 out')) \<and>
      (\<forall>b k. b < fst (shape3 out') \<longrightarrow> k < snd (snd (shape3 out')) \<longrightarrow>
          get3 out' b 0 k = 0))"
  by (auto simp: Seq2Seq_forward_def Seq2SeqAttention_forward_def then_do_Inr_iff
      dest!: Seq2Seq_states_outputs Seq2SeqAttention_states_outputs)

theorem output_time_index_zero_witness:
  "(\<exists>out. Seq2Seq_forward example_encoder example_decoder () () example_trg = Inr out
       \<and> shape3 out = (2, 3, 3) \<and> get3 out 1 0 2 = 0)
   \<and> (\<exists>out. Seq2SeqAttention_forward example_random 0 example_attn_encoder
               example_attn_decoder () () example_trg (1 / 2) = Inr out
       \<and> shape3 out = (2, 3, 3) \<and> get3 out 1 0 2 = 0)"
proof -
  let ?r1 = "Seq2Seq_forward example_encoder example_decoder () () example_trg"
  let ?r2 = "Seq2SeqAttention_forward example_random 0 example_attn_encoder
               example_attn_decoder () () example_trg (1 / 2)"
  have r1: "?r1 = Inr (projr ?r1)" and s1: "shape3 (projr ?r1) = (2, 3, 3)"
    by (simp_all add: example_defs driver_defs then_do_def upt_rec)
  have r2: "?r2 = Inr (projr ?r2)" and s2: "shape3 (projr ?r2) = (2, 3, 3)"
    by (simp_all add: example_defs driver_defs then_do_def upt_rec)
  from output_time_index_zero[where enc = example_encoder and dec = example_decoder
      and src_input = "()" and src_length = "()" and trg_input = example_trg
      and out = "projr ?r1" and random = example_random and ?g0.0 = 0
      and enc' = example_attn_encoder and dec' = example_attn_decoder and src_input' = "()"
      and src_length' = "()" and tar_input = example_trg and rate = "1 / 2"
      and out' = "projr ?r2"] r1 r2 s1 s2
  have "get3 (projr ?r1) 1 0 2 = 0" and "get3 (projr ?r2) 1 0 2 = 0"
    by simp_all
  then show ?thesis using r1 r2 s1 s2 by metis
qed

text \<open>
  C9. For both architectures and a target input of shape (B, L): when \<^verbatim>\<open>forward\<close> returns,
  the output tensor has shape (B, L, V), where V is the decoder's \<^verbatim>\<open>out_dim\<close>. And it does
  return when L and V are at least 1 (the seed column is read at index 0, the maximum is
  taken over the vocabulary axis), the encoder returns and the decoder, called on B tokens,
  returns logits of shape (B, V).
\<close>

theorem forward_output_shape:
  assumes "shape2 trg_input = (B, L)"
  shows "(\<forall>out. Seq2Seq_forward enc dec src_input src_length trg_input = Inr out \<longrightarrow>
            shape3 out = (B, L, out_dim dec))
    \<and> (\<forall>out. Seq2SeqAttention_forward random g0 enc' dec' src_input' src_length' trg_input rate
              = Inr out \<longrightarrow> shape3 out = (B, L, out_dim dec'))
    \<and> (0 < L \<and> 0 < out_dim dec \<and> (\<exists>h0 c0. enc src_input src_length = Inr (h0, c0)) \<and>
         (\<forall>inp h c. shape1 inp = B \<longrightarrow>
            (\<exists>p h' c'. call dec inp h c = Inr (p, h', c') \<and> shape2 p = (B, out_dim dec)))
        \<longrightarrow> (\<exists>out. Seq2Seq_forward enc dec src_input src_length trg_input = Inr out))
    \<and> (0 < L \<and> 0 < out_dim dec' \<and>
         (\<exists>e h0 c0. enc' src_input' src_length' = Inr (e, h0, c0) \<and>
           (\<forall>inp h c. shape1 inp = B \<longrightarrow>
              (\<exists>p h' c'. call dec' e inp h c = Inr (p, h', c')
                 \<and> shape2 p = (B, out_dim dec'))))
        \<longrightarrow> (\<exists>out. Seq2SeqAttention_forward random g0 enc' dec' src_input' src_length'
                      trg_input rate = Inr out))"
proof (intro conjI allI impI)
  fix out
  assume "Seq2Seq_forward enc dec src_input src_length trg_input = Inr out"
  then show "shape3 out = (B, L, out_dim dec)"
    using assms by (auto simp: Seq2Seq_forward_def then_do_Inr_iff dest!: Seq2Seq_states_outputs)
next
  fix out
  assume "Seq2SeqAttention_forward random g0 enc' dec' src_input' src_length' trg_input rate
           = Inr out"
  then show "shape3 out = (B, L, out_dim dec')"
    using assms
    by (auto simp: Seq2SeqAttention_forward_def then_do_Inr_iff
        dest!: Seq2SeqAttention_states_outputs)
next
  assume a: "0 < L \<and> 0 < out_dim dec \<and> (\<exists>h0 c0. enc src_input src_length = Inr (h0, c0)) \<and>
         (\<forall>inp h c. shape1 inp = B \<longrightarrow>
            (\<exists>p h' c'. call dec inp h c = Inr (p, h', c') \<and> shape2 p = (B, out_dim dec)))"
  then obtain h0 c0 where e: "enc src_input src_length = Inr (h0, c0)" by blast
  have "\<exists>st. Seq2Seq_states enc dec src_input src_length trg_input L = Inr st"
    by (rule Seq2Seq_states_succeeds[where enc = enc and src = src_input and len = src_length
          and n = L and B = B and L = L, OF e assms]) (use a in auto)
  then show "\<exists>out. Seq2Seq_forward enc dec src_input src_length trg_input = Inr out"
    using assms by (auto simp: Seq2Seq_forward_def then_do_def)
next
  assume a: "0 < L \<and> 0 < out_dim dec' \<and>
         (\<exists>e h0 c0. enc' src_input' src_length' = Inr (e, h0, c0) \<and>
           (\<forall>inp h c. shape1 inp = B \<longrightarrow>
              (\<exists>p h' c'. call dec' e inp h c = Inr (p, h', c')
                 \<and> shape2 p = (B, out_dim dec'))))"
  then obtain e h0 c0 where e: "enc' src_input' src_length' = Inr (e, h0, c0)"
    and d: "\<forall>inp h c. shape1 inp = B \<longrightarrow>
              (\<exists>p h' c'. call dec' e inp h c = Inr (p, h', c') \<and> shape2 p = (B, out_dim dec'))"
    by blast
  have "\<exists>st. Seq2SeqAttention_states random g0 enc' dec' src_input' src_length' trg_input rate L
          = Inr st"
    by (rule Seq2SeqAttention_states_succeeds[where enc = enc' and src = src_input'
          and len = src_length' and n = L and B = B and L = L, OF e assms])
      (use a d in auto)
  then show "\<exists>out. Seq2SeqAttention_forward random g0 enc' dec' src_input' src_length'
                      trg_input rate = Inr out"
    using assms by (auto simp: Seq2SeqAttention_forward_def then_do_def)
qed

theorem forward_output_shape_witness:
  "shape2 example_trg = (2, 3) \<and> out_dim example_decoder = 3
   \<and> (\<exists>out. Seq2Seq_forward example_encoder example_decoder () () example_trg = Inr out
         \<and> shape3 out = (2, 3, 3))
   \<and> (\<exists>out. Seq2SeqAttention_forward example_random 0 example_attn_encoder
               example_attn_decoder () () example_trg (1 / 2) = Inr out
         \<and> shape3 out = (2, 3, 3))"
proof -
  have s: "shape2 example_trg = (2, 3)" by (simp add: example_defs)
  have v: "out_dim example_decoder = 3" "out_dim example_attn_decoder = 3"
    by (simp_all add: example_defs)
  note th = forward_output_shape[OF s, where enc = example_encoder and dec = example_decoder
      and src_input = "()" and src_length = "()" and random = example_random and ?g0.0 = 0
      and enc' = example_attn_encoder and dec' = example_attn_decoder and src_input' = "()"
      and src_length' = "()" and rate = "1 / 2"]
  have p1: "0 < (3::nat) \<and> 0 < out_dim example_decoder
      \<and> (\<exists>h0 c0. example_encoder () () = Inr (h0, c0))
      \<and> (\<forall>inp h c. shape1 inp = 2 \<longrightarrow>
            (\<exists>p h' c'. call example_decoder inp h c = Inr (p, h', c')
               \<and> shape2 p = (2, out_dim example_decoder)))"
    by (simp add: example_defs)
  have p2: "0 < (3::nat) \<and> 0 < out_dim example_attn_decoder
      \<and> (\<exists>e h0 c0. example_attn_encoder () () = Inr (e, h0, c0) \<and>
           (\<forall>inp h c. shape1 inp = 2 \<longrightarrow>
              (\<exists>p h' c'. call example_attn_decoder e inp h c = Inr (p, h', c')
                 \<and> shape2 p = (2, out_dim example_attn_decoder))))"
    by (simp add: example_defs)
  from th p1 obtain o1 where
    o1: "Seq2Seq_forward example_encoder example_decoder () () example_trg = Inr o1"
    by blast
  from th p2 obtain o2 where
    o2: "Seq2SeqAttention_forward example_random 0 example_attn_encoder
               example_attn_decoder () () example_trg (1 / 2) = Inr o2"
    by blast
  from th o1 have "shape3 o1 = (2, 3, out_dim example_decoder)" by blast
  moreover from th o2 have "shape3 o2 = (2, 3, out_dim example_attn_decoder)" by blast
  ultimately show ?thesis using s v o1 o2 by auto
qed

text \<open>
  C8. The plain driver takes no random source and no teacher-forcing rate. In a run that
  returns, at every time step \<open>t\<close> from 1 to max\_len - 1 the input token carried to the next
  step is the index \<^verbatim>\<open>max(dim=1)\<close> returns for the logits the decoder produced at step \<open>t\<close>:
  for every batch element a position of the largest logit. The target batch is read only
  for its shape and its seed column: any two target batches that agree on these give the
  same run, so no later ground-truth token is ever fed.
\<close>

theorem Seq2Seq_next_input_is_argmax:
  assumes "Seq2Seq_forward enc dec src_input src_length trg_input = Inr out"
  shows "(\<forall>t. 1 \<le> t \<and> t < snd (shape2 trg_input) \<longrightarrow>
          (\<exists>st predication hidden' cell' vals indices st'.
              Seq2Seq_states enc dec src_input src_length trg_input t = Inr st
            \<and> call dec (input_tok st) (hidden st) (cell st) = Inr (predication, hidden', cell')
            \<and> max_dim1 predication = Inr (vals, indices)
            \<and> Seq2Seq_states enc dec src_input src_length trg_input (Suc t) = Inr st'
            \<and> input_tok st' = indices
            \<and> shape1 indices = fst (shape2 predication)
            \<and> (\<forall>b k. k < snd (shape2 predication) \<longrightarrow>
                   0 \<le> get1 indices b \<and> nat (get1 indices b) < snd (shape2 predication)
                 \<and> get2 predication b k \<le> get2 predication b (nat (get1 indices b)))))
       \<and> (\<forall>trg'. shape2 trg' = shape2 trg_input \<and> select_col trg' 0 = select_col trg_input 0
             \<longrightarrow> Seq2Seq_forward enc dec src_input src_length trg' = Inr out)"
proof (intro conjI allI impI)
  fix t
  assume t: "1 \<le> t \<and> t < snd (shape2 trg_input)"
  from t Seq2Seq_forward_step[OF assms, of t] obtain st st' where
    st: "Seq2Seq_states enc dec src_input src_length trg_input t = Inr st"
    and st': "Seq2Seq_states enc dec src_input src_length trg_input (Suc t) = Inr st'"
    and step: "Seq2Seq_step dec t st = Inr st'"
    by blast
  from Seq2Seq_step_Inr[OF step] obtain p vals where
    d: "call dec (input_tok st) (hidden st) (cell st) = Inr (p, hidden st', cell st')"
    and m: "max_dim1 p = Inr (vals, input_tok st')"
    by blast
  have "\<forall>b k. k < snd (shape2 p) \<longrightarrow>
                 0 \<le> get1 (input_tok st') b \<and> nat (get1 (input_tok st') b) < snd (shape2 p)
               \<and> get2 p b k \<le> get2 p b (nat (get1 (input_tok st') b))"
    using max_dim1_is_argmax[OF m] by blast
  moreover have "shape1 (input_tok st') = fst (shape2 p)"
    by (rule max_dim1_Inr(1)[OF m])
  ultimately show "\<exists>st predication hidden' cell' vals indices st'.
              Seq2Seq_states enc dec src_input src_length trg_input t = Inr st
            \<and> call dec (input_tok st) (hidden st) (cell st) = Inr (predication, hidden', cell')
            \<and> max_dim1 predication = Inr (vals, indices)
            \<and> Seq2Seq_states enc dec src_input src_length trg_input (Suc t) = Inr st'
            \<and> input_tok st' = indices
            \<and> shape1 indices = fst (shape2 predication)
            \<and> (\<forall>b k. k < snd (shape2 predication) \<longrightarrow>
                   0 \<le> get1 indices b \<and> nat (get1 indices b) < snd (shape2 predication)
                 \<and> get2 predication b k \<le> get2 predication b (nat (get1 indices b)))"
    using st st' d m by blast
next
  fix trg'
  assume "shape2 trg' = shape2 trg_input \<and> select_col trg' 0 = select_col trg_input 0"
  then have "Seq2Seq_forward enc dec src_input src_length trg'
              = Seq2Seq_forward enc dec src_input src_length trg_input"
    by (simp add: Seq2Seq_forward_def Seq2Seq_states_def)
  then show "Seq2Seq_forward enc dec src_input src_length trg' = Inr out"
    using assms by simp
qed

text \<open>
  On the example batch, after step 1 the second sequence is fed the token 2, the position
  of the largest logit, and not its target token, which is 0.
\<close>

theorem Seq2Seq_next_input_is_argmax_witness:
  "\<exists>out st st' predication hidden' cell' vals.
      Seq2Seq_forward example_encoder example_decoder () () example_trg = Inr out
    \<and> (1::nat) \<le> 1 \<and> 1 < snd (shape2 example_trg)
    \<and> Seq2Seq_states example_encoder example_decoder () () example_trg 1 = Inr st
    \<and> call example_decoder (input_tok st) (hidden st) (cell st)
        = Inr (predication, hidden', cell')
    \<and> max_dim1 predication = Inr (vals, input_tok st')
    \<and> Seq2Seq_states example_encoder example_decoder () () example_trg (Suc 1) = Inr st'
    \<and> get1 (input_tok st') 1 = 2 \<and> get2 example_trg 1 1 = 0"
proof -
  let ?r = "Seq2Seq_forward example_encoder example_decoder () () example_trg"
  let ?s = "Seq2Seq_states example_encoder example_decoder () () example_trg (Suc 1)"
  have r: "?r = Inr (projr ?r)"
    by (simp add: example_defs driver_defs then_do_def upt_rec)
  have t: "(1::nat) \<le> 1 \<and> 1 < snd (shape2 example_trg)"
    by (simp add: example_defs)
  have v: "get1 (input_tok (projr ?s)) 1 = 2" "get2 example_trg 1 1 = 0"
    by (simp_all add: example_defs driver_defs then_do_def upt_rec eval_nat_numeral)
  from Seq2Seq_next_input_is_argmax[OF r] t obtain st p h c vals idx st' where
    "Seq2Seq_states example_encoder example_decoder () () example_trg 1 = Inr st"
    "call example_decoder (input_tok st) (hidden st) (cell st) = Inr (p, h, c)"
    "max_dim1 p = Inr (vals, idx)" "?s = Inr st'" "input_tok st' = idx"
    by blast
  then show ?thesis using r t v by (metis sum.sel(2))
qed

text \<open>
  C6. With a teacher-forcing rate of 0 and a random source whose draws are never negative
  (or, for any rate, a random source that never draws below it): in a run of the attention
  driver that returns, at every time step \<open>t\<close> from 1 to max\_len - 1 the input token carried to
  the next step is the index \<^verbatim>\<open>max(dim=1)\<close> returns for the logits just produced, for every
  batch element a position of the largest logit.
\<close>

theorem teacher_forcing_rate_zero_is_greedy:
  assumes "Seq2SeqAttention_forward random g0 enc dec src_input src_length tar_input rate = Inr out"
    and "(rate = 0 \<and> (\<forall>g. 0 \<le> fst (random g))) \<or> (\<forall>g. \<not> fst (random g) < rate)"
  shows "\<forall>t. 1 \<le> t \<and> t < snd (shape2 tar_input) \<longrightarrow>
          (\<exists>enc_output h0 c0 st predication hidden' cell' vals indices st'.
              enc src_input src_length = Inr (enc_output, h0, c0)
            \<and> Seq2SeqAttention_states random g0 enc dec src_input src_length tar_input rate t
                = Inr st
            \<and> call dec enc_output (input_tok st) (hidden st) (cell st)
                = Inr (predication, hidden', cell')
            \<and> max_dim1 predication = Inr (vals, indices)
            \<and> Seq2SeqAttention_states random g0 enc dec src_input src_length tar_input rate
                (Suc t) = Inr st'
            \<and> input_tok st' = indices
            \<and> shape1 indices = fst (shape2 predication)
            \<and> (\<forall>b k. k < snd (shape2 predication) \<longrightarrow>
                   0 \<le> get1 indices b \<and> nat (get1 indices b) < snd (shape2 predication)
                 \<and> get2 predication b k \<le> get2 predication b (nat (get1 indices b))))"
proof (intro allI impI)
  fix t
  assume t: "1 \<le> t \<and> t < snd (shape2 tar_input)"
  have never: "\<And>g. \<not> fst (random g) < rate"
    using assms(2) by (auto simp: not_less)
  from t Seq2SeqAttention_forward_step[OF assms(1), of t] obtain st st' e h0 c0 where
    st: "Seq2SeqAttention_states random g0 enc dec src_input src_length tar_input rate t = Inr st"
    and st': "Seq2SeqAttention_states random g0 enc dec src_input src_length tar_input rate (Suc t)
               = Inr st'"
    and e: "enc src_input src_length = Inr (e, h0, c0)"
    and step: "Seq2SeqAttention_step random dec e tar_input rate t st = Inr st'"
    by blast
  from Seq2SeqAttention_step_Inr[OF step] never[of "gen st"] obtain p vals where
    d: "call dec e (input_tok st) (hidden st) (cell st) = Inr (p, hidden st', cell st')"
    and m: "max_dim1 p = Inr (vals, input_tok st')"
    by auto
  have "\<forall>b k. k < snd (shape2 p) \<longrightarrow>
                 0 \<le> get1 (input_tok st') b \<and> nat (get1 (input_tok st') b) < snd (shape2 p)
               \<and> get2 p b k \<le> get2 p b (nat (get1 (input_tok st') b))"
    using max_dim1_is_argmax[OF m] by blast
  moreover have "shape1 (input_tok st') = fst (shape2 p)"
    by (rule max_dim1_Inr(1)[OF m])
  ultimately show "\<exists>enc_output h0 c0 st predication hidden' cell' vals indices st'.
              enc src_input src_length = Inr (enc_output, h0, c0)
            \<and> Seq2SeqAttention_states random g0 enc dec src_input src_length tar_input rate t
                = Inr st
            \<and> call dec enc_output (input_tok st) (hidden st) (cell st)
                = Inr (predication, hidden', cell')
            \<and> max_dim1 predication = Inr (vals, indices)
            \<and> Seq2SeqAttention_states random g0 enc dec src_input src_length tar_input rate
                (Suc t) = Inr st'
            \<and> input_tok st' = indices
            \<and> shape1 indices = fst (shape2 predication)
            \<and> (\<forall>b k. k < snd (shape2 predication) \<longrightarrow>
                   0 \<le> get1 indices b \<and> nat (get1 indices b) < snd (shape2 predication)
                 \<and> get2 predication b k \<le> get2 predication b (nat (get1 indices b)))"
    using e st st' d m by blast
qed

text \<open>
  On the example batch with rate 0, after step 1 the second sequence is fed the token 2,
  the position of the largest logit; its target token there is 0.
\<close>

theorem teacher_forcing_rate_zero_is_greedy_witness:
  "\<exists>out st st' predication hidden' cell' vals.
      Seq2SeqAttention_forward example_random 0 example_attn_encoder example_attn_decoder
        () () example_trg 0 = Inr out
    \<and> (\<forall>g. 0 \<le> fst (example_random g))
    \<and> (1::nat) \<le> 1 \<and> 1 < snd (shape2 example_trg)
    \<and> Seq2SeqAttention_states example_random 0 example_attn_encoder example_attn_decoder
        () () example_trg 0 1 = Inr st
    \<and> call example_attn_decoder () (input_tok st) (hidden st) (cell st)
        = Inr (predication, hidden', cell')
    \<and> max_dim1 predication = Inr (vals, input_tok st')
    \<and> Seq2SeqAttention_states example_random 0 example_attn_encoder example_attn_decoder
        () () example_trg 0 (Suc 1) = Inr st'
    \<and> get1 (input_tok st') 1 = 2 \<and> get2 example_trg 1 1 = 0"
proof -
  let ?r = "Seq2SeqAttention_forward example_random 0 example_attn_encoder
              example_attn_decoder () () example_trg 0"
  let ?s = "Seq2SeqAttention_states example_random 0 example_attn_encoder
              example_attn_decoder () () example_trg 0 (Suc 1)"
  have r: "?r = Inr (projr ?r)"
    by (simp add: example_defs driver_defs then_do_def upt_rec)
  have g: "\<forall>g. 0 \<le> fst (example_random g)"
    by (simp add: example_defs)
  then have h: "((0::real) = 0 \<and> (\<forall>g. 0 \<le> fst (example_random g)))
      \<or> (\<forall>g. \<not> fst (example_random g) < 0)"
    by simp
  have t: "(1::nat) \<le> 1 \<and> 1 < snd (shape2 example_trg)"
    by (simp add: example_defs)
  have v: "get1 (input_tok (projr ?s)) 1 = 2" "get2 example_trg 1 1 = 0"
    by (simp_all add: example_defs driver_defs then_do_def upt_rec eval_nat_numeral)
  from teacher_forcing_rate_zero_is_greedy[OF r h] t obtain e h0 c0 st p h c vals idx st' where
    "Seq2SeqAttention_states example_random 0 example_attn_encoder example_attn_decoder
        () () example_trg 0 1 = Inr st"
    "call example_attn_decoder e (input_tok st) (hidden st) (cell st) = Inr (p, h, c)"
    "max_dim1 p = Inr (vals, idx)" "?s = Inr st'" "input_tok st' = idx"
    by blast
  then show ?thesis using r g t v by (metis sum.sel(2) old.unit.exhaust)
qed

text \<open>
  C7. With a teacher-forcing rate of 1 and a random source whose draws are below 1: in a
  run of the attention driver that returns, at every time step \<open>t\<close> from 1 to max\_len - 1 the
  input token carried to the next step is the column \<open>t\<close> of the target batch, the
  ground-truth token of every batch element at that index, whatever the decoder produced.
\<close>

theorem teacher_forcing_rate_one_feeds_target:
  assumes "Seq2SeqAttention_forward random g0 enc dec src_input src_length tar_input 1 = Inr out"
    and "\<forall>g. fst (random g) < 1"
  shows "\<forall>t. 1 \<le> t \<and> t < snd (shape2 tar_input) \<longrightarrow>
          (\<exists>st'. Seq2SeqAttention_states random g0 enc dec src_input src_length tar_input 1
                    (Suc t) = Inr st'
            \<and> select_col tar_input t = Inr (input_tok st')
            \<and> shape1 (input_tok st') = fst (shape2 tar_input)
            \<and> (\<forall>b. get1 (input_tok st') b = get2 tar_input b t))"
proof (intro allI impI)
  fix t
  assume t: "1 \<le> t \<and> t < snd (shape2 tar_input)"
  from t Seq2SeqAttention_forward_step[OF assms(1), of t] obtain st st' e h0 c0 where
    st': "Seq2SeqAttention_states random g0 enc dec src_input src_length tar_input 1 (Suc t)
               = Inr st'"
    and step: "Seq2SeqAttention_step random dec e tar_input 1 t st = Inr st'"
    by blast
  from Seq2SeqAttention_step_Inr[OF step] assms(2) have
    sel: "select_col tar_input t = Inr (input_tok st')"
    by auto
  show "\<exists>st'. Seq2SeqAttention_states random g0 enc dec src_input src_length tar_input 1
                    (Suc t) = Inr st'
            \<and> select_col tar_input t = Inr (input_tok st')
            \<and> shape1 (input_tok st') = fst (shape2 tar_input)
            \<and> (\<forall>b. get1 (input_tok st') b = get2 tar_input b t)"
    using st' sel select_col_Inr(2,3)[OF sel] by blast
qed

text \<open>
  On the example batch with rate 1, after step 1 the second sequence is fed its target
  token 0; the decoder's largest logit at that step is at position 2.
\<close>

theorem teacher_forcing_rate_one_feeds_target_witness:
  "\<exists>out st'.
      Seq2SeqAttention_forward example_random 0 example_attn_encoder example_attn_decoder
        () () example_trg 1 = Inr out
    \<and> (\<forall>g. fst (example_random g) < 1)
    \<and> (1::nat) \<le> 1 \<and> 1 < snd (shape2 example_trg)
    \<and> Seq2SeqAttention_states example_random 0 example_attn_encoder example_attn_decoder
        () () example_trg 1 (Suc 1) = Inr st'
    \<and> select_col example_trg 1 = Inr (input_tok st')
    \<and> get1 (input_tok st') 1 = get2 example_trg 1 1 \<and> get2 example_trg 1 1 = 0"
proof -
  let ?r = "Seq2SeqAttention_forward example_random 0 example_attn_encoder
              example_attn_decoder () () example_trg 1"
  let ?s = "Seq2SeqAttention_states example_random 0 example_attn_encoder
              example_attn_decoder () () example_trg 1 (Suc 1)"
  have r: "?r = Inr (projr ?r)"
    by (simp add: example_defs driver_defs then_do_def upt_rec)
  have g: "\<forall>g. fst (example_random g) < 1"
    by (simp add: example_defs)
  have t: "(1::nat) \<le> 1 \<and> 1 < snd (shape2 example_trg)"
    by (simp add: example_defs)
  have v: "get2 example_trg 1 1 = 0"
    by (simp add: example_defs)
  from teacher_forcing_rate_one_feeds_target[OF r g] t obtain st' where
    "?s = Inr st'" "select_col example_trg 1 = Inr (input_tok st')"
    "\<forall>b. get1 (input_tok st') b = get2 example_trg b 1"
    by blast
  then show ?thesis using r g t v by (metis sum.sel(2))
qed

text \<open>
  C10. In a run of the attention driver that returns, every time step \<open>t\<close> from 1 to
  max\_len - 1 advances the random source exactly once (it has been advanced \<open>t - 1\<close> times
  when the step begins), and the one draw decides for the whole batch: when the draw is
  below the rate the next input is the column \<open>t\<close> of the target batch, otherwise it is the
  tensor of indices \<^verbatim>\<open>max(dim=1)\<close> returned. The next input is one of these two tensors, never
  a mixture of their entries.
\<close>

theorem teacher_forcing_drawn_once_per_step:
  assumes "Seq2SeqAttention_forward random g0 enc dec src_input src_length tar_input rate = Inr out"
  shows "\<forall>t. 1 \<le> t \<and> t < snd (shape2 tar_input) \<longrightarrow>
          (\<exists>enc_output h0 c0 st predication hidden' cell' vals indices st'.
              enc src_input src_length = Inr (enc_output, h0, c0)
            \<and> Seq2SeqAttention_states random g0 enc dec src_input src_length tar_input rate t
                = Inr st
            \<and> call dec enc_output (input_tok st) (hidden st) (cell st)
                = Inr (predication, hidden', cell')
            \<and> max_dim1 predication = Inr (vals, indices)
            \<and> Seq2SeqAttention_states random g0 enc dec src_input src_length tar_input rate
                (Suc t) = Inr st'
            \<and> gen st = ((\<lambda>g. snd (random g)) ^^ (t - 1)) g0
            \<and> gen st' = snd (random (gen st))
            \<and> ((fst (random (gen st)) < rate \<and> select_col tar_input t = Inr (input_tok st'))
               \<or> (\<not> fst (random (gen st)) < rate \<and> input_tok st' = indices)))"
proof (intro allI impI)
  fix t
  assume t: "1 \<le> t \<and> t < snd (shape2 tar_input)"
  from t Seq2SeqAttention_forward_step[OF assms(1), of t] obtain st st' e h0 c0 where
    st: "Seq2SeqAttention_states random g0 enc dec src_input src_length tar_input rate t = Inr st"
    and st': "Seq2SeqAttention_states random g0 enc dec src_input src_length tar_input rate (Suc t)
               = Inr st'"
    and e: "enc src_input src_length = Inr (e, h0, c0)"
    and step: "Seq2SeqAttention_step random dec e tar_input rate t st = Inr st'"
    by blast
  from Seq2SeqAttention_step_Inr[OF step] obtain p vals idx where
    d: "call dec e (input_tok st) (hidden st) (cell st) = Inr (p, hidden st', cell st')"
    and m: "max_dim1 p = Inr (vals, idx)"
    and g: "gen st' = snd (random (gen st))"
    and c: "if fst (random (gen st)) < rate then select_col tar_input t = Inr (input_tok st')
            else input_tok st' = idx"
    by blast
  have c': "(fst (random (gen st)) < rate \<and> select_col tar_input t = Inr (input_tok st'))
               \<or> (\<not> fst (random (gen st)) < rate \<and> input_tok st' = idx)"
    using c by (auto split: if_splits)
  show "\<exists>enc_output h0 c0 st predication hidden' cell' vals indices st'.
              enc src_input src_length = Inr (enc_output, h0, c0)
            \<and> Seq2SeqAttention_states random g0 enc dec src_input src_length tar_input rate t
                = Inr st
            \<and> call dec enc_output (input_tok st) (hidden st) (cell st)
                = Inr (predication, hidden', cell')
            \<and> max_dim1 predication = Inr (vals, indices)
            \<and> Seq2SeqAttention_states random g0 enc dec src_input src_length tar_input rate
                (Suc t) = Inr st'
            \<and> gen st = ((\<lambda>g. snd (random g)) ^^ (t - 1)) g0
            \<and> gen st' = snd (random (gen st))
            \<and> ((fst (random (gen st)) < rate \<and> select_col tar_input t = Inr (input_tok st'))
               \<or> (\<not> fst (random (gen st)) < rate \<and> input_tok st' = indices))"
    using e st st' d m g c' Seq2SeqAttention_states_gen[OF st] by blast
qed

text \<open>
  On the example batch with rate 1/2 the generator draws 1/4 at step 1 and 3/4 at step 2:
  after step 1 both sequences are fed their target tokens 2 and 0, after step 2 both are fed
  the position of their largest logit, 0 and 1, and the generator has been advanced twice.
\<close>

theorem teacher_forcing_drawn_once_per_step_witness:
  "\<exists>out st1 st2.
      Seq2SeqAttention_forward example_random 0 example_attn_encoder example_attn_decoder
        () () example_trg (1 / 2) = Inr out
    \<and> (2::nat) < snd (shape2 example_trg)
    \<and> Seq2SeqAttention_states example_random 0 example_attn_encoder example_attn_decoder
        () () example_trg (1 / 2) (Suc 1) = Inr st1
    \<and> Seq2SeqAttention_states example_random 0 example_attn_encoder example_attn_decoder
        () () example_trg (1 / 2) (Suc 2) = Inr st2
    \<and> gen st1 = 1 \<and> gen st2 = snd (example_random (gen st1)) \<and> gen st2 = 2
    \<and> get1 (input_tok st1) 0 = 2 \<and> get1 (input_tok st1) 1 = 0
    \<and> get1 (input_tok st2) 0 = 0 \<and> get1 (input_tok st2) 1 = 1"
proof -
  let ?r = "Seq2SeqAttention_forward example_random 0 example_attn_encoder
              example_attn_decoder () () example_trg (1 / 2)"
  let ?s1 = "Seq2SeqAttention_states example_random 0 example_attn_encoder
              example_attn_decoder () () example_trg (1 / 2) (Suc 1)"
  let ?s2 = "Seq2SeqAttention_states example_random 0 example_attn_encoder
              example_attn_decoder () () example_trg (1 / 2) (Suc 2)"
  have r: "?r = Inr (projr ?r)"
    by (simp add: example_defs driver_defs then_do_def upt_rec)
  have t: "(1::nat) \<le> 2 \<and> (2::nat) < snd (shape2 example_trg)"
    by (simp add: example_defs)
  have s1: "?s1 = Inr (projr ?s1)"
    by (simp add: example_defs driver_defs then_do_def upt_rec)
  have v: "gen (projr ?s1) = 1" "gen (projr ?s2) = 2"
    "get1 (input_tok (projr ?s1)) 0 = 2" "get1 (input_tok (projr ?s1)) 1 = 0"
    "get1 (input_tok (projr ?s2)) 0 = 0" "get1 (input_tok (projr ?s2)) 1 = 1"
    by (simp_all add: example_defs driver_defs then_do_def upt_rec eval_nat_numeral)
  from teacher_forcing_drawn_once_per_step[OF r] t obtain st st' where
    a: "Seq2SeqAttention_states example_random 0 example_attn_encoder
          example_attn_decoder () () example_trg (1 / 2) 2 = Inr st"
    and b: "?s2 = Inr st'" and c: "gen st' = snd (example_random (gen st))"
    by blast
  have "?s1 = Inr st" using a by (simp add: numeral_2_eq_2)
  then have "st = projr ?s1" by simp
  moreover have "st' = projr ?s2" using b by simp
  ultimately show ?thesis using r t s1 b c v by metis
qed

end
